theory Spec2Isabelle
  imports Complex_Main "HOL-Library.Word"
begin

unbundle bit_operations_syntax

section \<open>The vision unit of the local position estimator\<close>

text \<open>
  A shallow embedding of \<^verbatim>\<open>src/modules/local_position_estimator/sensors/vision.cpp\<close>:
  the four member functions \<^verbatim>\<open>visionInit\<close>, \<^verbatim>\<open>visionMeasure\<close>, \<^verbatim>\<open>visionCorrect\<close> and
  \<^verbatim>\<open>visionCheckTimeout\<close> of \<^verbatim>\<open>BlockLocalPositionEstimator\<close>, as functions from the
  estimator's state to its new state.

  The file uses single-precision floats, the matrix library, the estimator's header and
  several helpers that live elsewhere. None of that is guessed: the float type is a type
  variable \<open>'f\<close> (doubles are \<open>'d\<close>), and every primitive the file calls on it, as well
  as every helper and constant declared outside the file, is a field of the record
  \<open>env\<close> that each function takes as its first argument. A theorem stated for every
  \<open>env\<close> therefore holds for IEEE-754 arithmetic with its rounding, infinities and NaN.
\<close>

subsection \<open>Matrices\<close>

text \<open>
  \<^verbatim>\<open>Matrix<float, M, N>\<close> is a list of \<open>M\<close> rows of \<open>N\<close> entries; \<^verbatim>\<open>Vector<float, M>\<close>
  is the matrix library's \<^verbatim>\<open>Matrix<float, M, 1>\<close>. Reading \<^verbatim>\<open>A(i, j)\<close>, writing
  \<^verbatim>\<open>A(i, j) = v\<close> and \<^verbatim>\<open>setZero()\<close> are written out; the arithmetic of the library
  (product, sum, difference, transpose, inverse) is taken from \<open>env\<close>.
\<close>

type_synonym 'f mat = "'f list list"

definition mat_get :: "'f mat \<Rightarrow> nat \<Rightarrow> nat \<Rightarrow> 'f" where
  "mat_get A i j = A ! i ! j"

definition mat_set :: "'f mat \<Rightarrow> nat \<Rightarrow> nat \<Rightarrow> 'f \<Rightarrow> 'f mat" where
  "mat_set A i j v = A[i := (A ! i)[j := v]]"

definition setZero :: "'f \<Rightarrow> nat \<Rightarrow> nat \<Rightarrow> 'f mat" where
  "setZero z m n = replicate m (replicate n z)"

subsection \<open>Running statistics\<close>

text \<open>
  Modelled from the spec: \<^verbatim>\<open>BlockStats<float, n_y_vision>\<close>, the type of
  \<^verbatim>\<open>_visionStats\<close>, is declared outside the file. Section 4.1 of the specification gives
  its contract: \<^verbatim>\<open>update(y)\<close> adds a sample, \<^verbatim>\<open>reset()\<close> clears all state,
  \<^verbatim>\<open>getCount()\<close> is 0 after a reset, and mean and standard deviation are functions of the
  samples added. The accumulator is modelled by the samples added since the last reset;
  how mean and standard deviation are computed from them is left to \<open>env\<close>.
\<close>

type_synonym 'f BlockStats = "'f mat list"

definition stats_update :: "'f BlockStats \<Rightarrow> 'f mat \<Rightarrow> 'f BlockStats" where
  "stats_update st u = st @ [u]"

definition stats_reset :: "'f BlockStats \<Rightarrow> 'f BlockStats" where
  "stats_reset st = []"

definition stats_getCount :: "'f BlockStats \<Rightarrow> nat" where
  "stats_getCount st = length st"

subsection \<open>The estimator's state\<close>

text \<open>
  The latest sample of the visual odometry subscription, \<^verbatim>\<open>_sub_visual_odom.get()\<close>.
  The fields \<^verbatim>\<open>x\<close>, \<^verbatim>\<open>y\<close>, \<^verbatim>\<open>z\<close> are named \<open>odom_x\<close>, \<open>odom_y\<close>, \<open>odom_z\<close> here. The
  three index constants are read from the message as the code reads them.
\<close>

record 'f vehicle_odometry =
  timestamp :: "64 word"
  odom_x :: 'f
  odom_y :: 'f
  odom_z :: 'f
  pose_covariance :: "'f list"
  COVARIANCE_MATRIX_X_VARIANCE :: "8 word"
  COVARIANCE_MATRIX_Y_VARIANCE :: "8 word"
  COVARIANCE_MATRIX_Z_VARIANCE :: "8 word"

text \<open>The two arrays of the innovations publication that the file writes.\<close>

record 'f ekf2_innovations =
  vel_pos_innov :: "'f list"
  vel_pos_innov_var :: "'f list"

text \<open>
  What the file sends to \<^verbatim>\<open>mavlink_log_pub\<close>, one constructor for each format string,
  with the values printed.
\<close>

datatype ('f, 'd) notification =
    Info_vision_init "'f mat" "'f mat"
  | Info_global_origin_init 'd 'd 'f
  | Info_vision_invalid 'f 'f
  | Info_vision_fault 'f
  | Info_vision_OK
  | Critical_vision_timeout

text \<open>
  The members of \<^verbatim>\<open>BlockLocalPositionEstimator\<close> that the file reads or writes. A member
  \<^verbatim>\<open>_name\<close> is the field \<open>name\<close>, except the state vector \<^verbatim>\<open>_x\<close> and its covariance
  \<^verbatim>\<open>_P\<close>, which are \<open>est_x\<close> and \<open>est_P\<close>. The parameters \<^verbatim>\<open>_vision_xy_stddev\<close>,
  \<^verbatim>\<open>_vision_z_stddev\<close> and \<^verbatim>\<open>_vision_delay\<close> hold the value their \<^verbatim>\<open>get()\<close> returns, and
  \<open>xDelay\<close> is \<^verbatim>\<open>_xDelay.get\<close>. The notifications sent are appended to \<open>mavlink_log\<close>.
  The sensor bitmasks have the type \<open>'m\<close>, which every function below takes to be a
  machine word \<open>'w word\<close> of some width.
\<close>

record ('f, 'd, 'mr, 'm) lpe =
  sub_visual_odom :: "'f vehicle_odometry"
  vision_eph :: 'f
  vision_epv :: 'f
  vision_xy_valid :: bool
  vision_z_valid :: bool
  time_last_vision_p :: "64 word"
  timeStamp :: "64 word"
  visionStats :: "'f BlockStats"
  sensorTimeout :: 'm
  sensorFault :: 'm
  est_x :: "'f mat"
  est_P :: "'f mat"
  xDelay :: "8 word \<Rightarrow> 'f mat"
  pub_innov :: "'f ekf2_innovations"
  vision_xy_stddev :: 'f
  vision_z_stddev :: 'f
  vision_delay :: 'f
  ref_lat :: 'd
  ref_lon :: 'd
  ref_alt :: 'f
  global_ref_timestamp :: "64 word"
  is_global_cov_init :: bool
  map_ref :: 'mr
  time_origin :: "64 word"
  altOriginInitialized :: bool
  altOriginGlobal :: bool
  altOrigin :: 'f
  mavlink_log :: "('f, 'd) notification list"

subsection \<open>What the file takes from elsewhere\<close>

text \<open>
  Everything the file calls or reads that is declared outside it.
  \<^item> Float primitives: \<^verbatim>\<open>PX4_ISFINITE\<close>, \<^verbatim>\<open>sqrtf\<close>, \<^verbatim>\<open>fmaxf\<close>, the comparisons
    \<^verbatim>\<open><=\<close>, \<^verbatim>\<open>>\<close>, \<^verbatim>\<open><\<close> (three fields: with NaN none is the negation of another), the
    product \<^verbatim>\<open>*\<close>, the conversion of a \<^verbatim>\<open>uint64_t\<close>, and \<open>f_lit m e\<close>, the float
    written \<open>m\<close> times ten to the \<open>e\<close> in the source (\<^verbatim>\<open>100.0f\<close> is \<open>f_lit 100 0\<close>,
    \<^verbatim>\<open>1e-6f\<close> is \<open>f_lit 1 (-6)\<close>, the integers 0 and 1 stored into a float are
    \<open>f_lit 0 0\<close> and \<open>f_lit 1 0\<close>).
  \<^item> The matrix library's arithmetic and its \<^verbatim>\<open>inv\<close>, here \<open>inv_mat\<close>.
  \<^item> \<^verbatim>\<open>getMean\<close> and \<^verbatim>\<open>getStdDev\<close> of the statistics block.
  \<^item> From the estimator's header: the state dimension and the indices of the position
    states, the bit \<^verbatim>\<open>SENSOR_VISION\<close>, the table \<^verbatim>\<open>BETA_TABLE\<close>, and the member function
    \<^verbatim>\<open>getDelayPeriods\<close>, which returns its result code and the value it stores through
    its second argument. Following sections 5 and 6 of the specification, where the
    unit only reads the delay buffer, it does not change the estimator's state.
  \<^item> \<^verbatim>\<open>globallocalconverter_getref\<close> (from the current values of its three output
    arguments to the values after the call), \<^verbatim>\<open>globallocalconverter_initialized\<close>,
    the field \<^verbatim>\<open>init_done\<close> of the map reference and \<^verbatim>\<open>map_projection_init\<close>.
\<close>

record ('f, 'd, 'mr, 'm) env =
  PX4_ISFINITE :: "'f \<Rightarrow> bool"
  sqrtf :: "'f \<Rightarrow> 'f"
  fmaxf :: "'f \<Rightarrow> 'f \<Rightarrow> 'f"
  f_le :: "'f \<Rightarrow> 'f \<Rightarrow> bool"
  f_gt :: "'f \<Rightarrow> 'f \<Rightarrow> bool"
  f_lt :: "'f \<Rightarrow> 'f \<Rightarrow> bool"
  f_mul :: "'f \<Rightarrow> 'f \<Rightarrow> 'f"
  f_of_u64 :: "64 word \<Rightarrow> 'f"
  f_lit :: "int \<Rightarrow> int \<Rightarrow> 'f"
  m_mul :: "'f mat \<Rightarrow> 'f mat \<Rightarrow> 'f mat"
  m_add :: "'f mat \<Rightarrow> 'f mat \<Rightarrow> 'f mat"
  m_sub :: "'f mat \<Rightarrow> 'f mat \<Rightarrow> 'f mat"
  m_transpose :: "'f mat \<Rightarrow> 'f mat"
  inv_mat :: "'f mat \<Rightarrow> 'f mat"
  getMean :: "'f BlockStats \<Rightarrow> 'f mat"
  getStdDev :: "'f BlockStats \<Rightarrow> 'f mat"
  n_x :: nat
  X_x :: nat
  X_y :: nat
  X_z :: nat
  SENSOR_VISION :: 'm
  BETA_TABLE :: "nat \<Rightarrow> 'f"
  getDelayPeriods :: "('f, 'd, 'mr, 'm) lpe \<Rightarrow> 'f \<Rightarrow> int \<times> 8 word"
  globallocalconverter_getref :: "'d \<times> 'd \<times> 'f \<Rightarrow> 'd \<times> 'd \<times> 'f"
  globallocalconverter_initialized :: bool
  init_done :: "'mr \<Rightarrow> bool"
  map_projection_init :: "'mr \<Rightarrow> 'd \<Rightarrow> 'd \<Rightarrow> 'mr"

text \<open>
  Modelled from the spec: the measurement has dimension 3, the spatial x, y and z
  (section 3); the header's enumeration of the measurement's components is not in the
  file. The file's own loop over the innovations reads the components 0, 1 and 2.
\<close>

definition Y_vision_x :: nat where "Y_vision_x = 0"
definition Y_vision_y :: nat where "Y_vision_y = 1"
definition Y_vision_z :: nat where "Y_vision_z = 2"
definition n_y_vision :: nat where "n_y_vision = 3"

subsection \<open>The file's constants\<close>

definition REQ_VISION_INIT_COUNT :: "32 word" where
  "REQ_VISION_INIT_COUNT = 1"

definition VISION_TIMEOUT :: "32 word" where
  "VISION_TIMEOUT = 500000"

definition EP_MAX_STD_DEV :: "('f, 'd, 'mr, 'm) env \<Rightarrow> 'f" where
  "EP_MAX_STD_DEV E = f_lit E 100 0"

subsection \<open>visionMeasure\<close>

text \<open>
  The result is \<open>Some y\<close> where the code fills \<open>y\<close> and returns \<^verbatim>\<open>OK\<close>, and \<open>None\<close>
  where it returns -1 (both callers only compare the result with \<^verbatim>\<open>OK\<close>, and return
  without reading \<open>y\<close> when it differs).
\<close>

definition visionMeasure ::
  "('f, 'd, 'mr, 'w::len word) env \<Rightarrow> ('f, 'd, 'mr, 'w word) lpe
     \<Rightarrow> 'f mat option \<times> ('f, 'd, 'mr, 'w word) lpe" where
  "visionMeasure E s =
    (let odom = sub_visual_odom s;
         x_variance = COVARIANCE_MATRIX_X_VARIANCE odom;
         y_variance = COVARIANCE_MATRIX_Y_VARIANCE odom;
         z_variance = COVARIANCE_MATRIX_Z_VARIANCE odom;
         s1 = (if PX4_ISFINITE E (pose_covariance odom ! unat x_variance) then
                 (let a = s\<lparr>vision_eph := sqrtf E (fmaxf E (pose_covariance odom ! unat x_variance)
                                                          (pose_covariance odom ! unat y_variance))\<rparr>;
                      b = a\<lparr>vision_epv := sqrtf E (pose_covariance odom ! unat z_variance)\<rparr>;
                      c = b\<lparr>vision_xy_valid := f_le E (vision_eph b) (EP_MAX_STD_DEV E)\<rparr>
                  in c\<lparr>vision_z_valid := f_le E (vision_epv c) (EP_MAX_STD_DEV E)\<rparr>)
               else s\<lparr>vision_xy_valid := True, vision_z_valid := True\<rparr>)
     in if \<not> vision_xy_valid s1 \<or> \<not> vision_z_valid s1 then
          (None, s1\<lparr>time_last_vision_p := timestamp odom\<rparr>)
        else
          (let s2 = s1\<lparr>time_last_vision_p := timestamp odom\<rparr>
           in if PX4_ISFINITE E (odom_x odom) then
                (let y0 = setZero (f_lit E 0 0) n_y_vision 1;
                     y1 = mat_set y0 Y_vision_x 0 (odom_x odom);
                     y2 = mat_set y1 Y_vision_y 0 (odom_y odom);
                     y3 = mat_set y2 Y_vision_z 0 (odom_z odom)
                 in (Some y3, s2\<lparr>visionStats := stats_update (visionStats s2) y3\<rparr>))
              else (None, s2)))"

subsection \<open>visionInit\<close>

definition visionInit ::
  "('f, 'd, 'mr, 'w::len word) env \<Rightarrow> ('f, 'd, 'mr, 'w word) lpe \<Rightarrow> ('f, 'd, 'mr, 'w word) lpe" where
  "visionInit E s =
    (case visionMeasure E s of
       (None, s1) \<Rightarrow> s1\<lparr>visionStats := stats_reset (visionStats s1)\<rparr>
     | (Some y, s1) \<Rightarrow>
         if stats_getCount (visionStats s1) > unat REQ_VISION_INIT_COUNT then
           (let s2 = s1\<lparr>mavlink_log := mavlink_log s1 @
                         [Info_vision_init (getMean E (visionStats s1)) (getStdDev E (visionStats s1))]\<rparr>;
                s3 = s2\<lparr>sensorTimeout := sensorTimeout s2 AND NOT (SENSOR_VISION E)\<rparr>;
                s4 = s3\<lparr>sensorFault := sensorFault s3 AND NOT (SENSOR_VISION E)\<rparr>;
                (lat, lon, alt) = globallocalconverter_getref E (ref_lat s4, ref_lon s4, ref_alt s4);
                s5 = s4\<lparr>ref_lat := lat, ref_lon := lon, ref_alt := alt\<rparr>;
                s6 = s5\<lparr>global_ref_timestamp := timeStamp s5\<rparr>;
                s7 = s6\<lparr>is_global_cov_init := globallocalconverter_initialized E\<rparr>;
                s8 = (if \<not> init_done E (map_ref s7) \<and> is_global_cov_init s7 then
                        s7\<lparr>mavlink_log := mavlink_log s7 @
                              [Info_global_origin_init (ref_lat s7) (ref_lon s7) (ref_alt s7)],
                           map_ref := map_projection_init E (map_ref s7) (ref_lat s7) (ref_lon s7),
                           time_origin := timeStamp s7\<rparr>
                      else s7)
            in if \<not> altOriginInitialized s8 then
                 s8\<lparr>altOriginInitialized := True,
                    altOriginGlobal := True,
                    altOrigin := (if globallocalconverter_initialized E then ref_alt s8
                                  else f_lit E 0 0)\<rparr>
               else s8)
         else s1)"

subsection \<open>visionCorrect\<close>

text \<open>The measurement matrix \<open>C\<close> (lines 119 to 123) and the noise matrix \<open>R\<close> (126 to 144).\<close>

definition vision_C :: "('f, 'd, 'mr, 'm) env \<Rightarrow> 'f mat" where
  "vision_C E =
    (let C0 = setZero (f_lit E 0 0) n_y_vision (n_x E);
         C1 = mat_set C0 Y_vision_x (X_x E) (f_lit E 1 0);
         C2 = mat_set C1 Y_vision_y (X_y E) (f_lit E 1 0)
     in mat_set C2 Y_vision_z (X_z E) (f_lit E 1 0))"

definition vision_R :: "('f, 'd, 'mr, 'm) env \<Rightarrow> ('f, 'd, 'mr, 'm) lpe \<Rightarrow> 'f mat" where
  "vision_R E s =
    (let R0 = setZero (f_lit E 0 0) n_y_vision n_y_vision;
         R1 = (if f_gt E (vision_eph s) (vision_xy_stddev s) then
                 mat_set (mat_set R0 Y_vision_x Y_vision_x (f_mul E (vision_eph s) (vision_eph s)))
                         Y_vision_y Y_vision_y (f_mul E (vision_eph s) (vision_eph s))
               else
                 mat_set (mat_set R0 Y_vision_x Y_vision_x
                            (f_mul E (vision_xy_stddev s) (vision_xy_stddev s)))
                         Y_vision_y Y_vision_y (f_mul E (vision_xy_stddev s) (vision_xy_stddev s)))
     in if f_gt E (vision_epv s) (vision_z_stddev s) then
          mat_set R1 Y_vision_z Y_vision_z (f_mul E (vision_epv s) (vision_epv s))
        else
          mat_set R1 Y_vision_z Y_vision_z (f_mul E (vision_z_stddev s) (vision_z_stddev s)))"

text \<open>The delay handed to \<^verbatim>\<open>getDelayPeriods\<close> (lines 149 to 154).\<close>

definition vision_delay_arg :: "('f, 'd, 'mr, 'm) env \<Rightarrow> ('f, 'd, 'mr, 'm) lpe \<Rightarrow> 'f" where
  "vision_delay_arg E s =
    (let d0 = f_mul E (f_of_u64 E (timeStamp s - timestamp (sub_visual_odom s))) (f_lit E 1 (- 6));
         d1 = (if f_lt E d0 (f_lit E 0 0) then f_lit E 0 0 else d0)
     in if f_gt E (vision_delay s) (f_lit E 0 0) then vision_delay s else d1)"

text \<open>The residual and its covariance (lines 156 to 161).\<close>

definition vision_r ::
  "('f, 'd, 'mr, 'm) env \<Rightarrow> ('f, 'd, 'mr, 'm) lpe \<Rightarrow> 'f mat \<Rightarrow> 8 word \<Rightarrow> 'f mat" where
  "vision_r E s y i_hist = m_sub E y (m_mul E (vision_C E) (xDelay s i_hist))"

definition vision_S :: "('f, 'd, 'mr, 'm) env \<Rightarrow> ('f, 'd, 'mr, 'm) lpe \<Rightarrow> 'f mat" where
  "vision_S E s =
    m_add E (m_mul E (m_mul E (vision_C E) (est_P s)) (m_transpose E (vision_C E))) (vision_R E s)"

text \<open>The two loops that publish the innovations (lines 164 to 172).\<close>

definition publish_innov ::
  "('f, 'd, 'mr, 'm) env \<Rightarrow> 'f mat \<Rightarrow> 'f mat \<Rightarrow> 'f ekf2_innovations \<Rightarrow> 'f ekf2_innovations" where
  "publish_innov E r S p =
    (let p1 = fold (\<lambda>i q. q\<lparr>vel_pos_innov := (vel_pos_innov q)[i := mat_get r i 0],
                              vel_pos_innov_var := (vel_pos_innov_var q)[i := mat_get S i i]\<rparr>)
                   [0..<3] p
     in fold (\<lambda>i q. q\<lparr>vel_pos_innov := (vel_pos_innov q)[i := f_lit E 0 0],
                        vel_pos_innov_var := (vel_pos_innov_var q)[i := f_lit E 1 0]\<rparr>)
             [3..<6] p1)"

text \<open>
  The inverse of the residual covariance and the statistic \<open>beta\<close> (lines 175 to 178),
  and the fault detection (lines 180 to 189).
\<close>

definition vision_S_I :: "('f, 'd, 'mr, 'm) env \<Rightarrow> ('f, 'd, 'mr, 'm) lpe \<Rightarrow> 'f mat" where
  "vision_S_I E s = inv_mat E (vision_S E s)"

definition vision_beta :: "('f, 'd, 'mr, 'm) env \<Rightarrow> 'f mat \<Rightarrow> 'f mat \<Rightarrow> 'f" where
  "vision_beta E r S_I = mat_get (m_mul E (m_transpose E r) (m_mul E S_I r)) 0 0"

definition faultDetect ::
  "('f, 'd, 'mr, 'w::len word) env \<Rightarrow> 'f \<Rightarrow> ('f, 'd, 'mr, 'w word) lpe \<Rightarrow> ('f, 'd, 'mr, 'w word) lpe" where
  "faultDetect E beta s =
    (if f_gt E beta (BETA_TABLE E n_y_vision) then
       (if \<not> (sensorFault s AND SENSOR_VISION E \<noteq> 0) then
          (let s1 = s\<lparr>mavlink_log := mavlink_log s @ [Info_vision_fault beta]\<rparr>
           in s1\<lparr>sensorFault := sensorFault s1 OR SENSOR_VISION E\<rparr>)
        else s)
     else if sensorFault s AND SENSOR_VISION E \<noteq> 0 then
       (let s1 = s\<lparr>sensorFault := sensorFault s AND NOT (SENSOR_VISION E)\<rparr>
        in s1\<lparr>mavlink_log := mavlink_log s1 @ [Info_vision_OK]\<rparr>)
     else s)"

text \<open>The correction of the state and of its covariance (lines 192 to 197).\<close>

definition kalmanCorrect ::
  "('f, 'd, 'mr, 'w::len word) env \<Rightarrow> 'f mat \<Rightarrow> 'f mat \<Rightarrow> ('f, 'd, 'mr, 'w word) lpe
     \<Rightarrow> ('f, 'd, 'mr, 'w word) lpe" where
  "kalmanCorrect E r S_I s =
    (if \<not> (sensorFault s AND SENSOR_VISION E \<noteq> 0) then
       (let C = vision_C E;
            K = m_mul E (m_mul E (est_P s) (m_transpose E C)) S_I;
            dx = m_mul E K r;
            s1 = s\<lparr>est_x := m_add E (est_x s) dx\<rparr>
        in s1\<lparr>est_P := m_sub E (est_P s1) (m_mul E (m_mul E K C) (est_P s1))\<rparr>)
     else s)"

definition visionCorrect ::
  "('f, 'd, 'mr, 'w::len word) env \<Rightarrow> ('f, 'd, 'mr, 'w word) lpe \<Rightarrow> ('f, 'd, 'mr, 'w word) lpe" where
  "visionCorrect E s =
    (case visionMeasure E s of
       (None, s1) \<Rightarrow>
         s1\<lparr>mavlink_log := mavlink_log s1 @ [Info_vision_invalid (vision_eph s1) (vision_epv s1)]\<rparr>
     | (Some y, s1) \<Rightarrow>
         (case getDelayPeriods E s1 (vision_delay_arg E s1) of
            (rc, i_hist) \<Rightarrow>
              if rc < 0 then s1
              else
                (let r = vision_r E s1 y i_hist;
                     S = vision_S E s1;
                     s2 = s1\<lparr>pub_innov := publish_innov E r S (pub_innov s1)\<rparr>;
                     S_I = vision_S_I E s1;
                     beta = vision_beta E r S_I;
                     s3 = faultDetect E beta s2
                 in kalmanCorrect E r S_I s3)))"

subsection \<open>visionCheckTimeout\<close>

definition visionCheckTimeout ::
  "('f, 'd, 'mr, 'w::len word) env \<Rightarrow> ('f, 'd, 'mr, 'w word) lpe \<Rightarrow> ('f, 'd, 'mr, 'w word) lpe" where
  "visionCheckTimeout E s =
    (if timeStamp s - time_last_vision_p s > ucast VISION_TIMEOUT then
       (if \<not> (sensorTimeout s AND SENSOR_VISION E \<noteq> 0) then
          (let s1 = s\<lparr>sensorTimeout := sensorTimeout s OR SENSOR_VISION E\<rparr>;
               s2 = s1\<lparr>visionStats := stats_reset (visionStats s1)\<rparr>
           in s2\<lparr>mavlink_log := mavlink_log s2 @ [Critical_vision_timeout]\<rparr>)
        else s)
     else s)"

section \<open>A reference environment\<close>

text \<open>
  One environment in which the functions above can be run on concrete states. Floats
  and doubles are the reals extended by the two infinities and NaN, with the comparisons
  and special cases of IEEE-754 and exact arithmetic on finite values (no rounding); the
  matrix operations are the textbook ones. It serves to run the code on concrete inputs;
  the general theorems do not depend on it.
\<close>

datatype fval = Fin real | PInf | NInf | NaN

fun x_isfinite :: "fval \<Rightarrow> bool" where
  "x_isfinite (Fin a) = True"
| "x_isfinite _ = False"

fun x_sqrt :: "fval \<Rightarrow> fval" where
  "x_sqrt (Fin a) = (if a < 0 then NaN else Fin (sqrt a))"
| "x_sqrt PInf = PInf"
| "x_sqrt _ = NaN"

fun x_lt :: "fval \<Rightarrow> fval \<Rightarrow> bool" where
  "x_lt NaN _ = False"
| "x_lt _ NaN = False"
| "x_lt (Fin a) (Fin b) = (a < b)"
| "x_lt _ NInf = False"
| "x_lt NInf _ = True"
| "x_lt PInf _ = False"
| "x_lt _ PInf = True"

definition x_gt :: "fval \<Rightarrow> fval \<Rightarrow> bool" where
  "x_gt a b = x_lt b a"

fun x_le :: "fval \<Rightarrow> fval \<Rightarrow> bool" where
  "x_le NaN _ = False"
| "x_le _ NaN = False"
| "x_le (Fin a) (Fin b) = (a \<le> b)"
| "x_le NInf _ = True"
| "x_le _ NInf = False"
| "x_le _ PInf = True"
| "x_le PInf _ = False"

fun x_fmax :: "fval \<Rightarrow> fval \<Rightarrow> fval" where
  "x_fmax NaN b = b"
| "x_fmax a NaN = a"
| "x_fmax a b = (if x_lt a b then b else a)"

definition x_sign :: "fval \<Rightarrow> int" where
  "x_sign a = (case a of Fin r \<Rightarrow> (if r < 0 then - 1 else if r = 0 then 0 else 1)
                 | PInf \<Rightarrow> 1 | NInf \<Rightarrow> - 1 | NaN \<Rightarrow> 0)"

definition x_inf :: "int \<Rightarrow> fval" where
  "x_inf sg = (if sg = 0 then NaN else if 0 < sg then PInf else NInf)"

fun x_neg :: "fval \<Rightarrow> fval" where
  "x_neg (Fin a) = Fin (- a)"
| "x_neg PInf = NInf"
| "x_neg NInf = PInf"
| "x_neg NaN = NaN"

fun x_add :: "fval \<Rightarrow> fval \<Rightarrow> fval" where
  "x_add NaN _ = NaN"
| "x_add _ NaN = NaN"
| "x_add (Fin a) (Fin b) = Fin (a + b)"
| "x_add PInf NInf = NaN"
| "x_add NInf PInf = NaN"
| "x_add (Fin a) b = b"
| "x_add a _ = a"

definition x_sub :: "fval \<Rightarrow> fval \<Rightarrow> fval" where
  "x_sub a b = x_add a (x_neg b)"

fun x_mul :: "fval \<Rightarrow> fval \<Rightarrow> fval" where
  "x_mul NaN _ = NaN"
| "x_mul _ NaN = NaN"
| "x_mul (Fin a) (Fin b) = Fin (a * b)"
| "x_mul a b = x_inf (x_sign a * x_sign b)"

fun x_div :: "fval \<Rightarrow> fval \<Rightarrow> fval" where
  "x_div NaN _ = NaN"
| "x_div _ NaN = NaN"
| "x_div (Fin a) (Fin b) = (if b = 0 then x_inf (x_sign (Fin a)) else Fin (a / b))"
| "x_div (Fin a) _ = Fin 0"
| "x_div a (Fin b) = x_inf (x_sign a * (if b < 0 then - 1 else 1))"
| "x_div _ _ = NaN"

definition x_lit :: "int \<Rightarrow> int \<Rightarrow> fval" where
  "x_lit m e = Fin (if 0 \<le> e then of_int m * 10 ^ nat e else of_int m / 10 ^ nat (- e))"

definition x_of_u64 :: "64 word \<Rightarrow> fval" where
  "x_of_u64 w = Fin (real (unat w))"

definition x_madd :: "fval mat \<Rightarrow> fval mat \<Rightarrow> fval mat" where
  "x_madd A B = map2 (map2 x_add) A B"

definition x_msub :: "fval mat \<Rightarrow> fval mat \<Rightarrow> fval mat" where
  "x_msub A B = map2 (map2 x_sub) A B"

definition x_mtranspose :: "fval mat \<Rightarrow> fval mat" where
  "x_mtranspose A = (case A of [] \<Rightarrow> [] | a # _ \<Rightarrow> map (\<lambda>j. map (\<lambda>row. row ! j) A) [0..<length a])"

definition x_dot :: "fval list \<Rightarrow> fval list \<Rightarrow> fval" where
  "x_dot u v = foldl x_add (Fin 0) (map2 x_mul u v)"

definition x_mmul :: "fval mat \<Rightarrow> fval mat \<Rightarrow> fval mat" where
  "x_mmul A B = map (\<lambda>row. map (x_dot row) (x_mtranspose B)) A"

text \<open>The inverse of a diagonal matrix; the runs below only invert diagonal matrices.\<close>

definition x_inv :: "fval mat \<Rightarrow> fval mat" where
  "x_inv A = map (\<lambda>i. map (\<lambda>j. if i = j then x_div (Fin 1) (A ! i ! i) else Fin 0) [0..<length A])
                 [0..<length A]"

definition x_getMean :: "fval BlockStats \<Rightarrow> fval mat" where
  "x_getMean st =
     map (map (\<lambda>v. x_div v (Fin (real (length st))))) (foldl x_madd (setZero (Fin 0) 3 1) st)"

definition x_getStdDev :: "fval BlockStats \<Rightarrow> fval mat" where
  "x_getStdDev st =
    (let n = Fin (real (length st));
         sm = foldl x_madd (setZero (Fin 0) 3 1) st;
         sq = foldl x_madd (setZero (Fin 0) 3 1) (map (map (map (\<lambda>v. x_mul v v))) st)
     in map2 (map2 (\<lambda>q m. x_sqrt (x_div (x_sub q (x_div (x_mul m m) n)) n))) sq sm)"

text \<open>
  The map reference is its \<^verbatim>\<open>init_done\<close> flag with the latitude and longitude given to
  \<^verbatim>\<open>map_projection_init\<close>. The state has 10 components of which the first three are
  the position, the vision bit is bit 5 of a 16-bit mask, the delay buffer retains 0.2 s,
  and no global frame is available.
\<close>

type_synonym x_lpe = "(fval, fval, bool \<times> fval \<times> fval, 16 word) lpe"

definition x_getDelayPeriods :: "x_lpe \<Rightarrow> fval \<Rightarrow> int \<times> 8 word" where
  "x_getDelayPeriods s d = (if x_gt d (Fin (1 / 5)) then (- 1, 9) else (0, 1))"

definition x_env :: "(fval, fval, bool \<times> fval \<times> fval, 16 word) env" where
  "x_env = \<lparr>PX4_ISFINITE = x_isfinite, sqrtf = x_sqrt, fmaxf = x_fmax,
            f_le = x_le, f_gt = x_gt, f_lt = x_lt, f_mul = x_mul,
            f_of_u64 = x_of_u64, f_lit = x_lit,
            m_mul = x_mmul, m_add = x_madd, m_sub = x_msub, m_transpose = x_mtranspose,
            inv_mat = x_inv, getMean = x_getMean, getStdDev = x_getStdDev,
            n_x = 10, X_x = 0, X_y = 1, X_z = 2,
            SENSOR_VISION = 32,
            BETA_TABLE = (\<lambda>n. Fin ([0, 8.82, 12.09, 13.99, 16.09, 17.88, 19.65] ! n)),
            getDelayPeriods = x_getDelayPeriods,
            globallocalconverter_getref = (\<lambda>r. r),
            globallocalconverter_initialized = False,
            init_done = fst,
            map_projection_init = (\<lambda>m lat lon. (True, lat, lon))\<rparr>"

subsection \<open>Concrete states\<close>

text \<open>
  A sample at the position (1, 2, 3) with unit variances, taken 100 microseconds before
  the estimator's clock, and an estimator at rest at the origin with the identity as
  covariance, no bit set, noise floors 0.1 and 0.5 and a fixed delay of 0.1 s.
\<close>

definition x_odom :: "fval vehicle_odometry" where
  "x_odom = \<lparr>timestamp = 1000000, odom_x = Fin 1, odom_y = Fin 2, odom_z = Fin 3,
             pose_covariance = (replicate 21 (Fin 0))[0 := Fin 1, 6 := Fin 1, 11 := Fin 1],
             COVARIANCE_MATRIX_X_VARIANCE = 0, COVARIANCE_MATRIX_Y_VARIANCE = 6,
             COVARIANCE_MATRIX_Z_VARIANCE = 11\<rparr>"

definition x_eye :: "nat \<Rightarrow> fval mat" where
  "x_eye n = map (\<lambda>i. map (\<lambda>j. if i = j then Fin 1 else Fin 0) [0..<n]) [0..<n]"

definition x_state :: x_lpe where
  "x_state = \<lparr>sub_visual_odom = x_odom,
              vision_eph = Fin 0, vision_epv = Fin 0,
              vision_xy_valid = False, vision_z_valid = False,
              time_last_vision_p = 0, timeStamp = 1000100,
              visionStats = [],
              sensorTimeout = 0, sensorFault = 0,
              est_x = setZero (Fin 0) 10 1, est_P = x_eye 10,
              xDelay = (\<lambda>i. setZero (Fin 0) 10 1),
              pub_innov = \<lparr>vel_pos_innov = [Fin 0, Fin 0, Fin 0, Fin 0, Fin 0, Fin 0],
                            vel_pos_innov_var = [Fin 0, Fin 0, Fin 0, Fin 0, Fin 0, Fin 0]\<rparr>,
              vision_xy_stddev = Fin (1 / 10), vision_z_stddev = Fin (1 / 2),
              vision_delay = Fin (1 / 10),
              ref_lat = Fin 0, ref_lon = Fin 0, ref_alt = Fin 0,
              global_ref_timestamp = 0, is_global_cov_init = False,
              map_ref = (False, Fin 0, Fin 0), time_origin = 0,
              altOriginInitialized = False, altOriginGlobal = False, altOrigin = Fin 0,
              mavlink_log = []\<rparr>"

text \<open>
  The same estimator with the sample's x position, the fault mask and the fixed delay
  chosen, and the state in which \<open>visionMeasure\<close> leaves it.
\<close>

definition x_cycle :: "real \<Rightarrow> 16 word \<Rightarrow> real \<Rightarrow> x_lpe" where
  "x_cycle a sf dl =
     x_state\<lparr>sub_visual_odom := x_odom\<lparr>odom_x := Fin a\<rparr>, sensorFault := sf,
             vision_delay := Fin dl\<rparr>"

definition x_measured :: "real \<Rightarrow> 16 word \<Rightarrow> real \<Rightarrow> x_lpe" where
  "x_measured a sf dl =
     (x_cycle a sf dl)\<lparr>vision_eph := Fin 1, vision_epv := Fin 1, vision_xy_valid := True,
                       vision_z_valid := True, time_last_vision_p := 1000000,
                       visionStats := [[[Fin a], [Fin 2], [Fin 3]]]\<rparr>"

text \<open>
  Further samples: one whose x and z variances are 10000, the square of the ceiling; one
  whose y variance is infinite; one whose z variance alone is NaN; and one without
  covariance, all entries NaN.
\<close>

definition x_odom_ceiling :: "fval vehicle_odometry" where
  "x_odom_ceiling =
     x_odom\<lparr>pose_covariance := (replicate 21 (Fin 0))[0 := Fin 10000, 6 := Fin 1, 11 := Fin 10000]\<rparr>"

definition x_odom_wide :: "fval vehicle_odometry" where
  "x_odom_wide =
     x_odom\<lparr>pose_covariance := (replicate 21 (Fin 0))[0 := Fin 1, 6 := PInf, 11 := Fin 1]\<rparr>"

definition x_odom_mixed :: "fval vehicle_odometry" where
  "x_odom_mixed =
     x_odom\<lparr>pose_covariance := (replicate 21 (Fin 0))[0 := Fin 1, 6 := Fin 1, 11 := NaN]\<rparr>"

definition x_odom_nocov :: "fval vehicle_odometry" where
  "x_odom_nocov = x_odom\<lparr>pose_covariance := replicate 21 NaN\<rparr>"

text \<open>
  The estimator before initialization, with the vision timeout bit set and no sample
  accumulated, and the state in which a first call of \<open>visionInit\<close> leaves it.
\<close>

definition x_uninit :: x_lpe where
  "x_uninit = x_state\<lparr>sensorTimeout := 32\<rparr>"

definition x_init1 :: x_lpe where
  "x_init1 = x_uninit\<lparr>vision_eph := Fin 1, vision_epv := Fin 1, vision_xy_valid := True,
                      vision_z_valid := True, time_last_vision_p := 1000000,
                      visionStats := [[[Fin 1], [Fin 2], [Fin 3]]]\<rparr>"

section \<open>The specification's words\<close>

text \<open>The three variances of the latest sample, as \<open>visionMeasure\<close> reads them.\<close>

definition var_x :: "('f, 'd, 'mr, 'm) lpe \<Rightarrow> 'f" where
  "var_x s = pose_covariance (sub_visual_odom s) !
               unat (COVARIANCE_MATRIX_X_VARIANCE (sub_visual_odom s))"

definition var_y :: "('f, 'd, 'mr, 'm) lpe \<Rightarrow> 'f" where
  "var_y s = pose_covariance (sub_visual_odom s) !
               unat (COVARIANCE_MATRIX_Y_VARIANCE (sub_visual_odom s))"

definition var_z :: "('f, 'd, 'mr, 'm) lpe \<Rightarrow> 'f" where
  "var_z s = pose_covariance (sub_visual_odom s) !
               unat (COVARIANCE_MATRIX_Z_VARIANCE (sub_visual_odom s))"

text \<open>
  Section 4.2 of the specification splits the samples in two: those whose covariance
  entries are finite, and the others. The entries are the three variances.
\<close>

definition covariance_finite :: "('f, 'd, 'mr, 'm) env \<Rightarrow> ('f, 'd, 'mr, 'm) lpe \<Rightarrow> bool" where
  "covariance_finite E s =
     (PX4_ISFINITE E (var_x s) \<and> PX4_ISFINITE E (var_y s) \<and> PX4_ISFINITE E (var_z s))"

text \<open>
  Section 3 of the specification derives the noise matrix from ``the larger of'' the
  reported standard deviation and the configured floor. On floats, the larger of \<open>a\<close> and
  \<open>b\<close> is \<open>a\<close> where \<open>a > b\<close> holds and \<open>b\<close> otherwise.
\<close>

definition larger_of :: "('f, 'd, 'mr, 'm) env \<Rightarrow> 'f \<Rightarrow> 'f \<Rightarrow> 'f" where
  "larger_of E a b = (if f_gt E a b then a else b)"

section \<open>Lemmas\<close>

subsection \<open>Bit masks and arithmetic\<close>

lemma bit_or_and_self: "(m OR b) AND b = (b :: 'a::len word)"
  by (simp add: bit_eq_iff bit_simps)

lemma bit_or_and_old: "(m OR b) AND m = (m :: 'a::len word)"
  by (simp add: bit_eq_iff bit_simps)

lemma bit_clear_and_self: "(m AND NOT b) AND b = (0 :: 'a::len word)"
  by (simp add: bit_eq_iff bit_simps)

lemma timeout_no_wrap:
  fixes a b :: "64 word"
  assumes "500000 < uint a - uint b"
  shows "a - b > ucast VISION_TIMEOUT"
proof -
  have "uint b \<le> uint a"
    using assms by simp
  then have "uint (a - b) = uint a - uint b"
    by (simp add: uint_sub_if')
  with assms show ?thesis
    by (simp add: word_less_def VISION_TIMEOUT_def)
qed

subsection \<open>visionMeasure\<close>

lemma sqrt_10000: "sqrt 10000 = 100"
  by (rule real_sqrt_unique) simp_all

lemma visionMeasure_frame:
  fixes E :: "('f, 'd, 'mr, 'w::len word) env" and s :: "('f, 'd, 'mr, 'w word) lpe"
  shows "est_x (snd (visionMeasure E s)) = est_x s"
    and "est_P (snd (visionMeasure E s)) = est_P s"
    and "sensorFault (snd (visionMeasure E s)) = sensorFault s"
    and "sensorTimeout (snd (visionMeasure E s)) = sensorTimeout s"
    and "mavlink_log (snd (visionMeasure E s)) = mavlink_log s"
    and "pub_innov (snd (visionMeasure E s)) = pub_innov s"
    and "vision_xy_stddev (snd (visionMeasure E s)) = vision_xy_stddev s"
    and "vision_z_stddev (snd (visionMeasure E s)) = vision_z_stddev s"
  by (simp_all add: visionMeasure_def Let_def)

lemma visionMeasure_time:
  fixes E :: "('f, 'd, 'mr, 'w::len word) env" and s :: "('f, 'd, 'mr, 'w word) lpe"
  shows "time_last_vision_p (snd (visionMeasure E s)) = timestamp (sub_visual_odom s)"
  by (simp add: visionMeasure_def Let_def)

lemma visionMeasure_stats:
  fixes E :: "('f, 'd, 'mr, 'w::len word) env" and s :: "('f, 'd, 'mr, 'w word) lpe"
  shows "visionStats (snd (visionMeasure E s)) =
           (case fst (visionMeasure E s) of None \<Rightarrow> visionStats s
            | Some y \<Rightarrow> stats_update (visionStats s) y)"
  by (simp add: visionMeasure_def Let_def)

lemma visionMeasure_finite:
  fixes E :: "('f, 'd, 'mr, 'w::len word) env" and s :: "('f, 'd, 'mr, 'w word) lpe"
  assumes "PX4_ISFINITE E (pose_covariance (sub_visual_odom s) !
                           unat (COVARIANCE_MATRIX_X_VARIANCE (sub_visual_odom s)))"
  shows "vision_eph (snd (visionMeasure E s)) =
           sqrtf E (fmaxf E (pose_covariance (sub_visual_odom s) !
                               unat (COVARIANCE_MATRIX_X_VARIANCE (sub_visual_odom s)))
                            (pose_covariance (sub_visual_odom s) !
                               unat (COVARIANCE_MATRIX_Y_VARIANCE (sub_visual_odom s))))"
    and "vision_epv (snd (visionMeasure E s)) =
           sqrtf E (pose_covariance (sub_visual_odom s) !
                      unat (COVARIANCE_MATRIX_Z_VARIANCE (sub_visual_odom s)))"
    and "vision_xy_valid (snd (visionMeasure E s)) =
           f_le E (vision_eph (snd (visionMeasure E s))) (EP_MAX_STD_DEV E)"
    and "vision_z_valid (snd (visionMeasure E s)) =
           f_le E (vision_epv (snd (visionMeasure E s))) (EP_MAX_STD_DEV E)"
  using assms by (simp_all add: visionMeasure_def Let_def)

lemma visionMeasure_not_finite:
  fixes E :: "('f, 'd, 'mr, 'w::len word) env" and s :: "('f, 'd, 'mr, 'w word) lpe"
  assumes "\<not> PX4_ISFINITE E (pose_covariance (sub_visual_odom s) !
                           unat (COVARIANCE_MATRIX_X_VARIANCE (sub_visual_odom s)))"
  shows "vision_eph (snd (visionMeasure E s)) = vision_eph s"
    and "vision_epv (snd (visionMeasure E s)) = vision_epv s"
    and "vision_xy_valid (snd (visionMeasure E s))"
    and "vision_z_valid (snd (visionMeasure E s))"
    and "(fst (visionMeasure E s) = None) = (\<not> PX4_ISFINITE E (odom_x (sub_visual_odom s)))"
  using assms by (simp_all add: visionMeasure_def Let_def)

lemma visionMeasure_result:
  fixes E :: "('f, 'd, 'mr, 'w::len word) env" and s :: "('f, 'd, 'mr, 'w word) lpe"
  shows "fst (visionMeasure E s) =
          (if vision_xy_valid (snd (visionMeasure E s)) \<and> vision_z_valid (snd (visionMeasure E s))
              \<and> PX4_ISFINITE E (odom_x (sub_visual_odom s))
           then Some [[odom_x (sub_visual_odom s)], [odom_y (sub_visual_odom s)],
                      [odom_z (sub_visual_odom s)]]
           else None)"
  by (auto simp add: visionMeasure_def Let_def setZero_def mat_set_def n_y_vision_def
        Y_vision_x_def Y_vision_y_def Y_vision_z_def numeral_3_eq_3)

lemma vision_R_diag:
  "vision_R E s =
     [[f_mul E (larger_of E (vision_eph s) (vision_xy_stddev s))
               (larger_of E (vision_eph s) (vision_xy_stddev s)), f_lit E 0 0, f_lit E 0 0],
      [f_lit E 0 0, f_mul E (larger_of E (vision_eph s) (vision_xy_stddev s))
               (larger_of E (vision_eph s) (vision_xy_stddev s)), f_lit E 0 0],
      [f_lit E 0 0, f_lit E 0 0, f_mul E (larger_of E (vision_epv s) (vision_z_stddev s))
               (larger_of E (vision_epv s) (vision_z_stddev s))]]"
  by (simp add: vision_R_def larger_of_def Let_def setZero_def mat_set_def n_y_vision_def
        Y_vision_x_def Y_vision_y_def Y_vision_z_def numeral_3_eq_3)

subsection \<open>visionCorrect\<close>

lemma upt_0_3: "[0..<3] = [0, 1, 2]"
  by (simp add: upt_rec)

lemma upt_3_6: "[3..<6] = [3, 4, 5]"
  by (simp add: upt_rec)

lemma publish_innov_slots:
  assumes "length (vel_pos_innov p) = 6" and "length (vel_pos_innov_var p) = 6"
  shows "publish_innov E r S p =
           p\<lparr>vel_pos_innov := [mat_get r 0 0, mat_get r 1 0, mat_get r 2 0,
                               f_lit E 0 0, f_lit E 0 0, f_lit E 0 0],
             vel_pos_innov_var := [mat_get S 0 0, mat_get S 1 1, mat_get S 2 2,
                                   f_lit E 1 0, f_lit E 1 0, f_lit E 1 0]\<rparr>"
proof -
  obtain a0 a1 a2 a3 a4 a5 where a: "vel_pos_innov p = [a0, a1, a2, a3, a4, a5]"
    using assms(1) by (auto simp add: length_Suc_conv numeral_eq_Suc)
  obtain b0 b1 b2 b3 b4 b5 where b: "vel_pos_innov_var p = [b0, b1, b2, b3, b4, b5]"
    using assms(2) by (auto simp add: length_Suc_conv numeral_eq_Suc)
  show ?thesis
    by (simp add: publish_innov_def upt_0_3 upt_3_6 a b)
qed

lemma faultDetect_onset:
  fixes E :: "('f, 'd, 'mr, 'w::len word) env" and s :: "('f, 'd, 'mr, 'w word) lpe"
  assumes "f_gt E beta (BETA_TABLE E n_y_vision)" and "sensorFault s AND SENSOR_VISION E = 0"
  shows "faultDetect E beta s =
           s\<lparr>sensorFault := sensorFault s OR SENSOR_VISION E,
             mavlink_log := mavlink_log s @ [Info_vision_fault beta]\<rparr>"
  using assms by (simp add: faultDetect_def Let_def)

lemma faultDetect_recovery:
  fixes E :: "('f, 'd, 'mr, 'w::len word) env" and s :: "('f, 'd, 'mr, 'w word) lpe"
  assumes "\<not> f_gt E beta (BETA_TABLE E n_y_vision)" and "sensorFault s AND SENSOR_VISION E \<noteq> 0"
  shows "faultDetect E beta s =
           s\<lparr>sensorFault := sensorFault s AND NOT (SENSOR_VISION E),
             mavlink_log := mavlink_log s @ [Info_vision_OK]\<rparr>"
  using assms by (simp add: faultDetect_def Let_def)

lemma faultDetect_steady:
  fixes E :: "('f, 'd, 'mr, 'w::len word) env" and s :: "('f, 'd, 'mr, 'w word) lpe"
  assumes "f_gt E beta (BETA_TABLE E n_y_vision) = (sensorFault s AND SENSOR_VISION E \<noteq> 0)"
  shows "faultDetect E beta s = s"
  using assms by (simp add: faultDetect_def Let_def)

lemma faultDetect_bit:
  fixes E :: "('f, 'd, 'mr, 'w::len word) env" and s :: "('f, 'd, 'mr, 'w word) lpe"
  assumes "SENSOR_VISION E \<noteq> 0"
  shows "(sensorFault (faultDetect E beta s) AND SENSOR_VISION E \<noteq> 0) =
           f_gt E beta (BETA_TABLE E n_y_vision)"
  using assms by (simp add: faultDetect_def Let_def bit_or_and_self bit_clear_and_self)

lemma faultDetect_sequence_from_fault:
  fixes E :: "('f, 'd, 'mr, 'w::len word) env" and s0 :: "('f, 'd, 'mr, 'w word) lpe"
  assumes "sensorFault s0 AND SENSOR_VISION E \<noteq> 0"
    and "\<not> f_gt E b0 (BETA_TABLE E n_y_vision)" and "\<not> f_gt E b1 (BETA_TABLE E n_y_vision)"
    and "f_gt E b2 (BETA_TABLE E n_y_vision)" and "f_gt E b3 (BETA_TABLE E n_y_vision)"
    and "\<not> f_gt E b4 (BETA_TABLE E n_y_vision)"
  shows "mavlink_log (fold (faultDetect E) [b0, b1, b2, b3, b4] s0) =
           mavlink_log s0 @ [Info_vision_OK, Info_vision_fault b2, Info_vision_OK]"
proof -
  have nz: "SENSOR_VISION E \<noteq> 0"
    using assms(1) by auto
  define t0 where "t0 = faultDetect E b0 s0"
  have t0: "t0 = s0\<lparr>sensorFault := sensorFault s0 AND NOT (SENSOR_VISION E),
                     mavlink_log := mavlink_log s0 @ [Info_vision_OK]\<rparr>"
    unfolding t0_def using assms by (simp add: faultDetect_recovery)
  have c0: "sensorFault t0 AND SENSOR_VISION E = 0"
    by (simp add: t0 bit_clear_and_self)
  have e1: "faultDetect E b1 t0 = t0"
    using assms c0 by (simp add: faultDetect_steady)
  define t2 where "t2 = faultDetect E b2 t0"
  have t2: "t2 = t0\<lparr>sensorFault := sensorFault t0 OR SENSOR_VISION E,
                     mavlink_log := mavlink_log t0 @ [Info_vision_fault b2]\<rparr>"
    unfolding t2_def using assms c0 by (simp add: faultDetect_onset)
  have c2: "sensorFault t2 AND SENSOR_VISION E \<noteq> 0"
    using nz by (simp add: t2 bit_or_and_self)
  have e3: "faultDetect E b3 t2 = t2"
    using assms c2 by (simp add: faultDetect_steady)
  have e4: "mavlink_log (faultDetect E b4 t2) = mavlink_log t2 @ [Info_vision_OK]"
    using assms c2 by (simp add: faultDetect_recovery)
  show ?thesis
    by (simp add: t0_def [symmetric] e1 t2_def [symmetric] e3 e4) (simp add: t2 t0)
qed

lemma faultDetect_frame:
  fixes E :: "('f, 'd, 'mr, 'w::len word) env" and s :: "('f, 'd, 'mr, 'w word) lpe"
  shows "est_x (faultDetect E beta s) = est_x s"
    and "est_P (faultDetect E beta s) = est_P s"
    and "pub_innov (faultDetect E beta s) = pub_innov s"
  by (simp_all add: faultDetect_def Let_def)

lemma kalmanCorrect_frame:
  fixes E :: "('f, 'd, 'mr, 'w::len word) env" and s :: "('f, 'd, 'mr, 'w word) lpe"
  shows "sensorFault (kalmanCorrect E r S_I s) = sensorFault s"
    and "mavlink_log (kalmanCorrect E r S_I s) = mavlink_log s"
    and "pub_innov (kalmanCorrect E r S_I s) = pub_innov s"
  by (simp_all add: kalmanCorrect_def Let_def)

lemma kalmanCorrect_fault:
  fixes E :: "('f, 'd, 'mr, 'w::len word) env" and s :: "('f, 'd, 'mr, 'w word) lpe"
  assumes "sensorFault s AND SENSOR_VISION E \<noteq> 0"
  shows "kalmanCorrect E r S_I s = s"
  using assms by (simp add: kalmanCorrect_def)

lemma visionCorrect_rejected:
  fixes E :: "('f, 'd, 'mr, 'w::len word) env" and s :: "('f, 'd, 'mr, 'w word) lpe"
  assumes "fst (visionMeasure E s) = None"
  shows "visionCorrect E s =
           (snd (visionMeasure E s))\<lparr>mavlink_log := mavlink_log s @
              [Info_vision_invalid (vision_eph (snd (visionMeasure E s)))
                                   (vision_epv (snd (visionMeasure E s)))]\<rparr>"
  using assms visionMeasure_frame(5) [of E s]
  by (cases "visionMeasure E s") (simp add: visionCorrect_def)

lemma visionCorrect_stale:
  fixes E :: "('f, 'd, 'mr, 'w::len word) env" and s :: "('f, 'd, 'mr, 'w word) lpe"
  assumes "fst (visionMeasure E s) = Some y"
    and "fst (getDelayPeriods E (snd (visionMeasure E s))
                (vision_delay_arg E (snd (visionMeasure E s)))) < 0"
  shows "visionCorrect E s = snd (visionMeasure E s)"
  using assms
  by (cases "visionMeasure E s")
     (auto simp add: visionCorrect_def split: prod.splits)

lemma visionCorrect_cycle:
  fixes E :: "('f, 'd, 'mr, 'w::len word) env" and s :: "('f, 'd, 'mr, 'w word) lpe"
  assumes "visionMeasure E s = (Some y, s1)"
    and "getDelayPeriods E s1 (vision_delay_arg E s1) = (rc, i_hist)"
    and "\<not> rc < 0"
  shows "visionCorrect E s =
           kalmanCorrect E (vision_r E s1 y i_hist) (vision_S_I E s1)
             (faultDetect E (vision_beta E (vision_r E s1 y i_hist) (vision_S_I E s1))
                (s1\<lparr>pub_innov := publish_innov E (vision_r E s1 y i_hist) (vision_S E s1)
                                    (pub_innov s1)\<rparr>))"
  using assms by (simp add: visionCorrect_def Let_def)

subsection \<open>Runs of a cycle in the reference environment\<close>

lemmas x_defs = x_env_def x_state_def x_odom_def x_eye_def x_lit_def x_gt_def x_sub_def x_madd_def
  x_msub_def x_mtranspose_def x_mmul_def x_dot_def x_inv_def x_of_u64_def x_getDelayPeriods_def
  setZero_def mat_set_def mat_get_def n_y_vision_def Y_vision_x_def Y_vision_y_def Y_vision_z_def
  EP_MAX_STD_DEV_def stats_update_def x_cycle_def x_measured_def

lemma x_C: "vision_C x_env =
   [[Fin 1, Fin 0, Fin 0, Fin 0, Fin 0, Fin 0, Fin 0, Fin 0, Fin 0, Fin 0],
    [Fin 0, Fin 1, Fin 0, Fin 0, Fin 0, Fin 0, Fin 0, Fin 0, Fin 0, Fin 0],
    [Fin 0, Fin 0, Fin 1, Fin 0, Fin 0, Fin 0, Fin 0, Fin 0, Fin 0, Fin 0]]"
  by (simp add: vision_C_def x_defs Let_def numeral_eq_Suc)

lemma x_cycle_measure:
  "visionMeasure x_env (x_cycle a sf dl) = (Some [[Fin a], [Fin 2], [Fin 3]], x_measured a sf dl)"
  by (simp add: visionMeasure_def Let_def x_defs numeral_3_eq_3)

lemma x_cycle_delay:
  assumes "0 < dl"
  shows "getDelayPeriods x_env (x_measured a sf dl) (vision_delay_arg x_env (x_measured a sf dl)) =
           (if 1 / 5 < dl then (- 1, 9) else (0, 1))"
  using assms by (simp add: vision_delay_arg_def Let_def x_defs)

lemma x_cycle_R: "vision_R x_env (x_measured a sf dl) =
    [[Fin 1, Fin 0, Fin 0], [Fin 0, Fin 1, Fin 0], [Fin 0, Fin 0, Fin 1]]"
  by (simp add: vision_R_diag larger_of_def x_defs)

lemma x_cycle_S: "vision_S x_env (x_measured a sf dl) =
    [[Fin 2, Fin 0, Fin 0], [Fin 0, Fin 2, Fin 0], [Fin 0, Fin 0, Fin 2]]"
  unfolding vision_S_def x_cycle_R x_C
  by (simp add: x_defs upt_rec)

lemma x_cycle_r:
  "vision_r x_env (x_measured a sf dl) [[Fin a], [Fin 2], [Fin 3]] i = [[Fin a], [Fin 2], [Fin 3]]"
  unfolding vision_r_def x_C
  by (simp add: x_defs upt_rec numeral_eq_Suc)

lemma x_cycle_beta:
  "vision_beta x_env [[Fin a], [Fin 2], [Fin 3]] (vision_S_I x_env (x_measured a sf dl)) =
     Fin (a * a / 2 + 13 / 2)"
  unfolding vision_beta_def vision_S_I_def x_cycle_S
  by (simp add: x_defs upt_rec)

subsection \<open>visionCheckTimeout\<close>

lemma VISION_TIMEOUT_u64: "(ucast VISION_TIMEOUT :: 64 word) = 500000"
  by (simp add: VISION_TIMEOUT_def)

lemma visionCheckTimeout_fire:
  fixes E :: "('f, 'd, 'mr, 'w::len word) env" and s :: "('f, 'd, 'mr, 'w word) lpe"
  assumes "timeStamp s - time_last_vision_p s > ucast VISION_TIMEOUT"
    and "sensorTimeout s AND SENSOR_VISION E = 0"
  shows "visionCheckTimeout E s =
              s\<lparr>sensorTimeout := sensorTimeout s OR SENSOR_VISION E,
                visionStats := [],
                mavlink_log := mavlink_log s @ [Critical_vision_timeout]\<rparr>"
  using assms by (simp add: visionCheckTimeout_def VISION_TIMEOUT_def stats_reset_def Let_def)

lemma visionCheckTimeout_idle:
  fixes E :: "('f, 'd, 'mr, 'w::len word) env" and s :: "('f, 'd, 'mr, 'w word) lpe"
  assumes "\<not> timeStamp s - time_last_vision_p s > ucast VISION_TIMEOUT
           \<or> sensorTimeout s AND SENSOR_VISION E \<noteq> 0"
  shows "visionCheckTimeout E s = s"
  using assms by (auto simp add: visionCheckTimeout_def VISION_TIMEOUT_def)

subsection \<open>Runs of visionMeasure on the concrete samples\<close>

lemmas var_defs = var_x_def var_y_def var_z_def

lemma x_ceiling_measure:
  "snd (visionMeasure x_env (x_state\<lparr>sub_visual_odom := x_odom_ceiling\<rparr>)) =
     x_state\<lparr>sub_visual_odom := x_odom_ceiling, vision_eph := Fin 100, vision_epv := Fin 100,
              vision_xy_valid := True, vision_z_valid := True, time_last_vision_p := 1000000,
              visionStats := [[[Fin 1], [Fin 2], [Fin 3]]]\<rparr>"
  by (simp add: visionMeasure_def Let_def x_odom_ceiling_def x_defs sqrt_10000 numeral_3_eq_3)

lemma x_nocov_measure:
  "visionMeasure x_env (x_state\<lparr>sub_visual_odom := x_odom_nocov, vision_eph := Fin 7, vision_epv := Fin 9\<rparr>) =
     (Some [[Fin 1], [Fin 2], [Fin 3]],
      x_state\<lparr>sub_visual_odom := x_odom_nocov, vision_eph := Fin 7, vision_epv := Fin 9,
              vision_xy_valid := True, vision_z_valid := True, time_last_vision_p := 1000000,
              visionStats := [[[Fin 1], [Fin 2], [Fin 3]]]\<rparr>)"
  by (simp add: visionMeasure_def Let_def x_odom_nocov_def x_defs numeral_3_eq_3)

lemma x_nocov_var:
  "\<not> PX4_ISFINITE x_env
        (var_x (x_state\<lparr>sub_visual_odom := x_odom_nocov, vision_eph := Fin 7, vision_epv := Fin 9\<rparr>))"
  by (simp add: var_x_def x_odom_nocov_def x_defs)

lemma x_wide_measure:
  "visionMeasure x_env (x_state\<lparr>sub_visual_odom := x_odom_wide\<rparr>) =
     (None, x_state\<lparr>sub_visual_odom := x_odom_wide, vision_eph := PInf, vision_epv := Fin 1,
                    vision_xy_valid := False, vision_z_valid := True,
                    time_last_vision_p := 1000000\<rparr>)"
  by (simp add: visionMeasure_def Let_def x_odom_wide_def x_defs)

subsection \<open>visionInit\<close>

lemma REQ_VISION_INIT_COUNT_nat: "unat REQ_VISION_INIT_COUNT = 1"
  by (simp add: REQ_VISION_INIT_COUNT_def)

lemma visionInit_rejected:
  fixes E :: "('f, 'd, 'mr, 'w::len word) env" and s :: "('f, 'd, 'mr, 'w word) lpe"
  assumes "fst (visionMeasure E s) = None"
  shows "visionInit E s = (snd (visionMeasure E s))\<lparr>visionStats := []\<rparr>"
  using assms by (cases "visionMeasure E s") (simp add: visionInit_def stats_reset_def)

lemma visionInit_waiting:
  fixes E :: "('f, 'd, 'mr, 'w::len word) env" and s :: "('f, 'd, 'mr, 'w word) lpe"
  assumes "fst (visionMeasure E s) = Some y"
    and "\<not> unat REQ_VISION_INIT_COUNT < stats_getCount (visionStats (snd (visionMeasure E s)))"
  shows "visionInit E s = snd (visionMeasure E s)"
  using assms by (cases "visionMeasure E s") (simp add: visionInit_def)

lemma visionInit_done:
  fixes E :: "('f, 'd, 'mr, 'w::len word) env" and s :: "('f, 'd, 'mr, 'w word) lpe"
  assumes "fst (visionMeasure E s) = Some y"
    and "unat REQ_VISION_INIT_COUNT < stats_getCount (visionStats (snd (visionMeasure E s)))"
  shows "sensorTimeout (visionInit E s) = sensorTimeout s AND NOT (SENSOR_VISION E)"
    and "sensorFault (visionInit E s) = sensorFault s AND NOT (SENSOR_VISION E)"
    and "take (Suc (length (mavlink_log s))) (mavlink_log (visionInit E s)) =
           mavlink_log s @ [Info_vision_init (getMean E (visionStats (snd (visionMeasure E s))))
                                             (getStdDev E (visionStats (snd (visionMeasure E s))))]"
    and "visionStats (visionInit E s) = visionStats (snd (visionMeasure E s))"
  using assms visionMeasure_frame(3,4,5) [of E s]
  by (cases "visionMeasure E s"; simp add: visionInit_def Let_def split: prod.splits)+

lemma x_uninit_measure:
  "visionMeasure x_env x_uninit = (Some [[Fin 1], [Fin 2], [Fin 3]], x_init1)"
  by (simp add: visionMeasure_def Let_def x_uninit_def x_init1_def x_defs numeral_3_eq_3)

lemma x_init1_measure:
  "visionMeasure x_env x_init1 =
     (Some [[Fin 1], [Fin 2], [Fin 3]],
      x_init1\<lparr>visionStats := [[[Fin 1], [Fin 2], [Fin 3]], [[Fin 1], [Fin 2], [Fin 3]]]\<rparr>)"
  by (simp add: visionMeasure_def Let_def x_uninit_def x_init1_def x_defs numeral_3_eq_3)

lemma x_init1_wide_measure:
  "fst (visionMeasure x_env (x_init1\<lparr>sub_visual_odom := x_odom_wide\<rparr>)) = None"
  by (simp add: visionMeasure_def Let_def x_uninit_def x_init1_def x_odom_wide_def x_defs)

lemma x_two_samples_stats:
  "getMean x_env [[[Fin 1], [Fin 2], [Fin 3]], [[Fin 1], [Fin 2], [Fin 3]]] = [[Fin 1], [Fin 2], [Fin 3]]
   \<and> getStdDev x_env [[[Fin 1], [Fin 2], [Fin 3]], [[Fin 1], [Fin 2], [Fin 3]]] =
       [[Fin 0], [Fin 0], [Fin 0]]"
  by (simp add: x_env_def x_getMean_def x_getStdDev_def x_madd_def x_sub_def setZero_def
        numeral_3_eq_3 x_sign_def x_inf_def)

subsection \<open>Values of the reference environment\<close>

lemma x_measured_est_P: "est_P (x_measured a sf dl) = est_P (x_cycle a sf dl)"
  by (simp add: x_measured_def)

lemma x_threshold: "BETA_TABLE x_env n_y_vision = Fin (1399 / 100)"
  by (simp add: x_env_def n_y_vision_def)

lemma x_cycle_fields:
  "sensorFault (x_cycle a sf dl) = sf" "mavlink_log (x_cycle a sf dl) = []"
  "SENSOR_VISION x_env = 32" "f_gt x_env = x_gt"
  by (simp_all add: x_cycle_def x_state_def x_env_def)

section \<open>The claims\<close>

text \<open>
  C1. On a cycle of \<open>visionCorrect\<close> that is not aborted (the measurement is accepted
  and \<open>getDelayPeriods\<close> does not fail), if the vision fault bit is set after the fault
  detection, then the state vector and its covariance are those before the call, while
  the innovations are published: the first three slots hold the residual and the
  diagonal of its covariance, the three others hold 0 and 1. The correction that follows
  the fault detection never writes the fault mask, so the mask after the detection is the
  mask on return (the last conjunct), and the hypothesis is stated on the latter.
\<close>

theorem visionCorrect_fault_keeps_state:
  fixes E :: "('f, 'd, 'mr, 'w::len word) env" and s :: "('f, 'd, 'mr, 'w word) lpe"
  assumes "visionMeasure E s = (Some y, s1)"
    and "getDelayPeriods E s1 (vision_delay_arg E s1) = (rc, i_hist)"
    and "\<not> rc < 0"
    and "sensorFault (visionCorrect E s) AND SENSOR_VISION E \<noteq> 0"
  shows "est_x (visionCorrect E s) = est_x s
       \<and> est_P (visionCorrect E s) = est_P s
       \<and> pub_innov (visionCorrect E s) =
            publish_innov E (vision_r E s1 y i_hist) (vision_S E s1) (pub_innov s)
       \<and> (length (vel_pos_innov (pub_innov s)) = 6 \<and> length (vel_pos_innov_var (pub_innov s)) = 6
            \<longrightarrow> vel_pos_innov (pub_innov (visionCorrect E s)) =
                  [mat_get (vision_r E s1 y i_hist) 0 0, mat_get (vision_r E s1 y i_hist) 1 0,
                   mat_get (vision_r E s1 y i_hist) 2 0, f_lit E 0 0, f_lit E 0 0, f_lit E 0 0]
              \<and> vel_pos_innov_var (pub_innov (visionCorrect E s)) =
                  [mat_get (vision_S E s1) 0 0, mat_get (vision_S E s1) 1 1,
                   mat_get (vision_S E s1) 2 2, f_lit E 1 0, f_lit E 1 0, f_lit E 1 0])
       \<and> sensorFault (visionCorrect E s) =
           sensorFault
             (faultDetect E (vision_beta E (vision_r E s1 y i_hist) (vision_S_I E s1))
                (s1\<lparr>pub_innov := publish_innov E (vision_r E s1 y i_hist) (vision_S E s1)
                                    (pub_innov s1)\<rparr>))"
proof -
  define r where "r = vision_r E s1 y i_hist"
  define s2 where "s2 = s1\<lparr>pub_innov := publish_innov E r (vision_S E s1) (pub_innov s1)\<rparr>"
  define s3 where "s3 = faultDetect E (vision_beta E r (vision_S_I E s1)) s2"
  have s1: "s1 = snd (visionMeasure E s)"
    using assms(1) by simp
  have run: "visionCorrect E s = kalmanCorrect E r (vision_S_I E s1) s3"
    unfolding r_def s2_def s3_def by (rule visionCorrect_cycle [OF assms(1-3)])
  have "sensorFault s3 AND SENSOR_VISION E \<noteq> 0"
    using assms(4) by (simp add: run kalmanCorrect_frame)
  then have stay: "visionCorrect E s = s3"
    by (simp add: run kalmanCorrect_fault)
  have x: "est_x s3 = est_x s" and P: "est_P s3 = est_P s"
    by (simp_all add: s3_def s2_def faultDetect_frame s1 visionMeasure_frame)
  have p: "pub_innov s3 = publish_innov E r (vision_S E s1) (pub_innov s)"
    by (simp add: s3_def s2_def faultDetect_frame s1 visionMeasure_frame)
  have b: "sensorFault (visionCorrect E s) = sensorFault s3"
    by (simp add: run kalmanCorrect_frame)
  have "est_x (visionCorrect E s) = est_x s
       \<and> est_P (visionCorrect E s) = est_P s
       \<and> pub_innov (visionCorrect E s) = publish_innov E r (vision_S E s1) (pub_innov s)
       \<and> (length (vel_pos_innov (pub_innov s)) = 6 \<and> length (vel_pos_innov_var (pub_innov s)) = 6
            \<longrightarrow> vel_pos_innov (pub_innov (visionCorrect E s)) =
                  [mat_get r 0 0, mat_get r 1 0, mat_get r 2 0, f_lit E 0 0, f_lit E 0 0, f_lit E 0 0]
              \<and> vel_pos_innov_var (pub_innov (visionCorrect E s)) =
                  [mat_get (vision_S E s1) 0 0, mat_get (vision_S E s1) 1 1,
                   mat_get (vision_S E s1) 2 2, f_lit E 1 0, f_lit E 1 0, f_lit E 1 0])"
    unfolding stay x P p
    by (simp add: publish_innov_slots)
  with b show ?thesis
    unfolding s3_def s2_def r_def by blast
qed

theorem visionCorrect_fault_keeps_state_witness:
  "visionMeasure x_env (x_cycle 10 0 (1 / 10)) =
     (Some [[Fin 10], [Fin 2], [Fin 3]], x_measured 10 0 (1 / 10))
   \<and> getDelayPeriods x_env (x_measured 10 0 (1 / 10))
        (vision_delay_arg x_env (x_measured 10 0 (1 / 10))) = (0, 1)
   \<and> sensorFault (visionCorrect x_env (x_cycle 10 0 (1 / 10))) AND SENSOR_VISION x_env \<noteq> 0
   \<and> est_x (visionCorrect x_env (x_cycle 10 0 (1 / 10))) = est_x (x_cycle 10 0 (1 / 10))
   \<and> est_P (visionCorrect x_env (x_cycle 10 0 (1 / 10))) = est_P (x_cycle 10 0 (1 / 10))
   \<and> vel_pos_innov (pub_innov (visionCorrect x_env (x_cycle 10 0 (1 / 10)))) =
        [Fin 10, Fin 2, Fin 3, Fin 0, Fin 0, Fin 0]
   \<and> vel_pos_innov_var (pub_innov (visionCorrect x_env (x_cycle 10 0 (1 / 10)))) =
        [Fin 2, Fin 2, Fin 2, Fin 1, Fin 1, Fin 1]"
proof -
  let ?s = "x_cycle 10 0 (1 / 10)" and ?s1 = "x_measured 10 0 (1 / 10)"
  have m: "visionMeasure x_env ?s = (Some [[Fin 10], [Fin 2], [Fin 3]], ?s1)"
    by (rule x_cycle_measure)
  have d: "getDelayPeriods x_env ?s1 (vision_delay_arg x_env ?s1) = (0, 1)"
    by (simp add: x_cycle_delay)
  have n: "\<not> (0 :: int) < 0"
    by simp
  have gt: "f_gt x_env (vision_beta x_env (vision_r x_env ?s1 [[Fin 10], [Fin 2], [Fin 3]] 1)
                          (vision_S_I x_env ?s1)) (BETA_TABLE x_env n_y_vision)"
    by (simp add: x_cycle_r x_cycle_beta) (simp add: x_env_def x_gt_def n_y_vision_def)
  have nz: "SENSOR_VISION x_env \<noteq> 0"
    by (simp add: x_env_def)
  have f: "sensorFault (visionCorrect x_env ?s) AND SENSOR_VISION x_env \<noteq> 0"
    by (simp add: visionCorrect_cycle [OF m d n] kalmanCorrect_frame faultDetect_bit [OF nz] gt)
  have len: "length (vel_pos_innov (pub_innov ?s)) = 6 \<and> length (vel_pos_innov_var (pub_innov ?s)) = 6"
    by (simp add: x_cycle_def x_state_def)
  have lit: "f_lit x_env 0 0 = Fin 0 \<and> f_lit x_env 1 0 = Fin 1"
    by (simp add: x_env_def x_lit_def)
  note t = visionCorrect_fault_keeps_state [OF m d n f]
  from t have xP: "est_x (visionCorrect x_env ?s) = est_x ?s \<and> est_P (visionCorrect x_env ?s) = est_P ?s"
    by blast
  from t len have "vel_pos_innov (pub_innov (visionCorrect x_env ?s)) =
                  [mat_get (vision_r x_env ?s1 [[Fin 10], [Fin 2], [Fin 3]] 1) 0 0,
                   mat_get (vision_r x_env ?s1 [[Fin 10], [Fin 2], [Fin 3]] 1) 1 0,
                   mat_get (vision_r x_env ?s1 [[Fin 10], [Fin 2], [Fin 3]] 1) 2 0,
                   f_lit x_env 0 0, f_lit x_env 0 0, f_lit x_env 0 0]
              \<and> vel_pos_innov_var (pub_innov (visionCorrect x_env ?s)) =
                  [mat_get (vision_S x_env ?s1) 0 0, mat_get (vision_S x_env ?s1) 1 1,
                   mat_get (vision_S x_env ?s1) 2 2, f_lit x_env 1 0, f_lit x_env 1 0, f_lit x_env 1 0]"
    by blast
  then have "vel_pos_innov (pub_innov (visionCorrect x_env ?s)) = [Fin 10, Fin 2, Fin 3, Fin 0, Fin 0, Fin 0]
      \<and> vel_pos_innov_var (pub_innov (visionCorrect x_env ?s)) = [Fin 2, Fin 2, Fin 2, Fin 1, Fin 1, Fin 1]"
    by (simp add: x_cycle_r x_cycle_S mat_get_def lit)
  with m d f xP show ?thesis by blast
qed

text \<open>
  C2. The fault detection is edge-triggered. On a cycle of \<open>visionCorrect\<close> that is not
  aborted, with \<open>beta\<close> the statistic of that cycle: when \<open>beta\<close> exceeds the threshold
  and the fault bit was clear, the fault notification is appended and the bit is set;
  when \<open>beta\<close> does not exceed it and the bit was set, the recovery notification is
  appended and the bit is cleared; in the two other cases nothing is notified and the mask
  is unchanged. Provided \<^verbatim>\<open>SENSOR_VISION\<close> is not the empty mask, the bit after the cycle
  is set exactly when \<open>beta\<close> exceeds the threshold. Feeding the detector, from a state
  with the bit clear, five values of which exactly the third and fourth exceed the
  threshold appends exactly two notifications: the fault at the third value and the
  recovery at the fifth. The bit is clear when the unit starts correcting, since
  \<open>visionInit\<close> clears it; from a state with the bit set the same five values append a
  recovery first (\<open>faultDetect_sequence_from_fault\<close> above).
\<close>

theorem faultDetect_edge_triggered:
  fixes E :: "('f, 'd, 'mr, 'w::len word) env" and s s0 :: "('f, 'd, 'mr, 'w word) lpe"
  assumes "visionMeasure E s = (Some y, s1)"
    and "getDelayPeriods E s1 (vision_delay_arg E s1) = (rc, i_hist)"
    and "\<not> rc < 0"
  defines "beta \<equiv> vision_beta E (vision_r E s1 y i_hist) (vision_S_I E s1)"
  shows "(f_gt E beta (BETA_TABLE E n_y_vision) \<and> sensorFault s AND SENSOR_VISION E = 0 \<longrightarrow>
            mavlink_log (visionCorrect E s) = mavlink_log s @ [Info_vision_fault beta]
          \<and> sensorFault (visionCorrect E s) = sensorFault s OR SENSOR_VISION E)
       \<and> (\<not> f_gt E beta (BETA_TABLE E n_y_vision) \<and> sensorFault s AND SENSOR_VISION E \<noteq> 0 \<longrightarrow>
            mavlink_log (visionCorrect E s) = mavlink_log s @ [Info_vision_OK]
          \<and> sensorFault (visionCorrect E s) = sensorFault s AND NOT (SENSOR_VISION E))
       \<and> (f_gt E beta (BETA_TABLE E n_y_vision) = (sensorFault s AND SENSOR_VISION E \<noteq> 0) \<longrightarrow>
            mavlink_log (visionCorrect E s) = mavlink_log s
          \<and> sensorFault (visionCorrect E s) = sensorFault s)
       \<and> (SENSOR_VISION E \<noteq> 0 \<longrightarrow>
            (sensorFault (visionCorrect E s) AND SENSOR_VISION E \<noteq> 0) =
              f_gt E beta (BETA_TABLE E n_y_vision))
       \<and> (SENSOR_VISION E \<noteq> 0 \<and> sensorFault s0 AND SENSOR_VISION E = 0
            \<and> \<not> f_gt E b0 (BETA_TABLE E n_y_vision) \<and> \<not> f_gt E b1 (BETA_TABLE E n_y_vision)
            \<and> f_gt E b2 (BETA_TABLE E n_y_vision) \<and> f_gt E b3 (BETA_TABLE E n_y_vision)
            \<and> \<not> f_gt E b4 (BETA_TABLE E n_y_vision) \<longrightarrow>
            mavlink_log (fold (faultDetect E) [b0, b1, b2, b3, b4] s0) =
              mavlink_log s0 @ [Info_vision_fault b2, Info_vision_OK])"
proof -
  define s2 where "s2 = s1\<lparr>pub_innov := publish_innov E (vision_r E s1 y i_hist) (vision_S E s1)
                                          (pub_innov s1)\<rparr>"
  have s1: "s1 = snd (visionMeasure E s)"
    using assms(1) by simp
  have run: "visionCorrect E s = kalmanCorrect E (vision_r E s1 y i_hist) (vision_S_I E s1)
                                   (faultDetect E beta s2)"
    unfolding beta_def s2_def by (rule visionCorrect_cycle [OF assms(1-3)])
  have lg: "mavlink_log (visionCorrect E s) = mavlink_log (faultDetect E beta s2)"
    and sf: "sensorFault (visionCorrect E s) = sensorFault (faultDetect E beta s2)"
    by (simp_all add: run kalmanCorrect_frame)
  have l2: "mavlink_log s2 = mavlink_log s" and f2: "sensorFault s2 = sensorFault s"
    by (simp_all add: s2_def s1 visionMeasure_frame)
  have onset: "mavlink_log (visionCorrect E s) = mavlink_log s @ [Info_vision_fault beta]
          \<and> sensorFault (visionCorrect E s) = sensorFault s OR SENSOR_VISION E"
    if "f_gt E beta (BETA_TABLE E n_y_vision) \<and> sensorFault s AND SENSOR_VISION E = 0"
    using that by (simp add: lg sf faultDetect_onset f2 l2)
  have recovery: "mavlink_log (visionCorrect E s) = mavlink_log s @ [Info_vision_OK]
          \<and> sensorFault (visionCorrect E s) = sensorFault s AND NOT (SENSOR_VISION E)"
    if "\<not> f_gt E beta (BETA_TABLE E n_y_vision) \<and> sensorFault s AND SENSOR_VISION E \<noteq> 0"
    using that by (simp add: lg sf faultDetect_recovery f2 l2)
  have steady: "mavlink_log (visionCorrect E s) = mavlink_log s
          \<and> sensorFault (visionCorrect E s) = sensorFault s"
    if "f_gt E beta (BETA_TABLE E n_y_vision) = (sensorFault s AND SENSOR_VISION E \<noteq> 0)"
    using that by (simp add: lg sf faultDetect_steady f2 l2)
  have bit: "(sensorFault (visionCorrect E s) AND SENSOR_VISION E \<noteq> 0) =
              f_gt E beta (BETA_TABLE E n_y_vision)" if "SENSOR_VISION E \<noteq> 0"
    using that by (simp add: sf faultDetect_bit)
  have seq: "mavlink_log (fold (faultDetect E) [b0, b1, b2, b3, b4] s0) =
              mavlink_log s0 @ [Info_vision_fault b2, Info_vision_OK]"
    if h: "SENSOR_VISION E \<noteq> 0 \<and> sensorFault s0 AND SENSOR_VISION E = 0
            \<and> \<not> f_gt E b0 (BETA_TABLE E n_y_vision) \<and> \<not> f_gt E b1 (BETA_TABLE E n_y_vision)
            \<and> f_gt E b2 (BETA_TABLE E n_y_vision) \<and> f_gt E b3 (BETA_TABLE E n_y_vision)
            \<and> \<not> f_gt E b4 (BETA_TABLE E n_y_vision)"
  proof -
    have e0: "faultDetect E b0 s0 = s0" and e1: "faultDetect E b1 s0 = s0"
      using h by (simp_all add: faultDetect_steady)
    define t where "t = faultDetect E b2 s0"
    have t: "t = s0\<lparr>sensorFault := sensorFault s0 OR SENSOR_VISION E,
                     mavlink_log := mavlink_log s0 @ [Info_vision_fault b2]\<rparr>"
      unfolding t_def using h by (simp add: faultDetect_onset)
    have tb: "sensorFault t AND SENSOR_VISION E \<noteq> 0"
      using h by (simp add: t bit_or_and_self)
    have e3: "faultDetect E b3 t = t"
      using h tb by (simp add: faultDetect_steady)
    have e4: "mavlink_log (faultDetect E b4 t) = mavlink_log t @ [Info_vision_OK]"
      using h tb by (simp add: faultDetect_recovery)
    show ?thesis
      by (simp add: e0 e1 t_def [symmetric] e3 e4) (simp add: t)
  qed
  from onset recovery steady bit seq show ?thesis
    by blast
qed

theorem faultDetect_edge_triggered_witness:
  "mavlink_log (visionCorrect x_env (x_cycle 10 0 (1 / 10))) = [Info_vision_fault (Fin (113 / 2))]
   \<and> sensorFault (visionCorrect x_env (x_cycle 10 0 (1 / 10))) = 32
   \<and> mavlink_log (visionCorrect x_env (x_cycle 1 32 (1 / 10))) = [Info_vision_OK]
   \<and> sensorFault (visionCorrect x_env (x_cycle 1 32 (1 / 10))) = 0
   \<and> mavlink_log (visionCorrect x_env (x_cycle 1 0 (1 / 10))) = []
   \<and> sensorFault (visionCorrect x_env (x_cycle 1 0 (1 / 10))) = 0
   \<and> mavlink_log (fold (faultDetect x_env) [Fin 1, Fin 2, Fin 50, Fin 60, Fin 3] x_state) =
       [Info_vision_fault (Fin 50), Info_vision_OK]"
proof -
  have d: "getDelayPeriods x_env (x_measured a sf (1 / 10))
             (vision_delay_arg x_env (x_measured a sf (1 / 10))) = (0, 1)" for a sf
    by (simp add: x_cycle_delay)
  have n: "\<not> (0 :: int) < 0"
    by simp
  note t = faultDetect_edge_triggered [OF x_cycle_measure d n, unfolded x_cycle_r x_cycle_beta
      x_threshold x_cycle_fields]
  have onset: "mavlink_log (visionCorrect x_env (x_cycle 10 0 (1 / 10))) = [Info_vision_fault (Fin (113 / 2))]
     \<and> sensorFault (visionCorrect x_env (x_cycle 10 0 (1 / 10))) = 32"
    using t [of 10 0] by (simp add: x_gt_def)
  have recovery: "mavlink_log (visionCorrect x_env (x_cycle 1 32 (1 / 10))) = [Info_vision_OK]
     \<and> sensorFault (visionCorrect x_env (x_cycle 1 32 (1 / 10))) = 0"
    using t [of 1 32] by (simp add: x_gt_def)
  have steady: "mavlink_log (visionCorrect x_env (x_cycle 1 0 (1 / 10))) = []
     \<and> sensorFault (visionCorrect x_env (x_cycle 1 0 (1 / 10))) = 0"
    using t [of 1 0] by (simp add: x_gt_def)
  have seq: "mavlink_log (fold (faultDetect x_env) [Fin 1, Fin 2, Fin 50, Fin 60, Fin 3] x_state) =
       [Info_vision_fault (Fin 50), Info_vision_OK]"
    using t [of 1 0 x_state "Fin 1" "Fin 2" "Fin 50" "Fin 60" "Fin 3"]
    by (simp add: x_gt_def x_state_def)
  from onset recovery steady seq show ?thesis
    by blast
qed

text \<open>
  C3. When the measurement is accepted and \<open>getDelayPeriods\<close> fails on the requested
  delay, \<open>visionCorrect\<close> returns at once: the state vector, its covariance and the fault
  mask are those before the call, and no innovation is published.
\<close>

theorem visionCorrect_stale_delay_unchanged:
  fixes E :: "('f, 'd, 'mr, 'w::len word) env" and s :: "('f, 'd, 'mr, 'w word) lpe"
  assumes "visionMeasure E s = (Some y, s1)"
    and "getDelayPeriods E s1 (vision_delay_arg E s1) = (rc, i_hist)"
    and "rc < 0"
  shows "est_x (visionCorrect E s) = est_x s
       \<and> est_P (visionCorrect E s) = est_P s
       \<and> sensorFault (visionCorrect E s) = sensorFault s
       \<and> pub_innov (visionCorrect E s) = pub_innov s"
proof -
  have s1: "s1 = snd (visionMeasure E s)"
    using assms(1) by simp
  have "visionCorrect E s = snd (visionMeasure E s)"
    using assms by (intro visionCorrect_stale [where y = y]) simp_all
  then show ?thesis
    by (simp add: s1 visionMeasure_frame)
qed

theorem visionCorrect_stale_delay_unchanged_witness:
  "visionMeasure x_env (x_cycle 1 0 (3 / 10)) =
     (Some [[Fin 1], [Fin 2], [Fin 3]], x_measured 1 0 (3 / 10))
   \<and> getDelayPeriods x_env (x_measured 1 0 (3 / 10))
        (vision_delay_arg x_env (x_measured 1 0 (3 / 10))) = (- 1, 9)
   \<and> est_x (visionCorrect x_env (x_cycle 1 0 (3 / 10))) = est_x (x_cycle 1 0 (3 / 10))
   \<and> est_P (visionCorrect x_env (x_cycle 1 0 (3 / 10))) = est_P (x_cycle 1 0 (3 / 10))
   \<and> sensorFault (visionCorrect x_env (x_cycle 1 0 (3 / 10))) = sensorFault (x_cycle 1 0 (3 / 10))"
proof -
  let ?s = "x_cycle 1 0 (3 / 10)" and ?s1 = "x_measured 1 0 (3 / 10)"
  have m: "visionMeasure x_env ?s = (Some [[Fin 1], [Fin 2], [Fin 3]], ?s1)"
    by (rule x_cycle_measure)
  have d: "getDelayPeriods x_env ?s1 (vision_delay_arg x_env ?s1) = (- 1, 9)"
    by (simp add: x_cycle_delay)
  have n: "(- 1 :: int) < 0"
    by simp
  from visionCorrect_stale_delay_unchanged [OF m d n] m d show ?thesis
    by blast
qed

text \<open>
  C4. \<open>visionInit\<close> completes (clears the vision bits of the timeout and fault masks and
  sends the init notification) only when the measurement is accepted and the count of
  the statistics, after that sample, exceeds \<^verbatim>\<open>REQ_VISION_INIT_COUNT\<close>, which is 1.
  An accepted sample raises the count by one, so from an empty accumulator the first
  accepted sample never completes the initialization: two accepted samples in a row are
  needed. A rejected measurement resets the accumulator, whose count is then 0, and
  leaves both masks and the notifications as they were.
\<close>

theorem visionInit_needs_two_samples:
  fixes E :: "('f, 'd, 'mr, 'w::len word) env" and s :: "('f, 'd, 'mr, 'w word) lpe"
  shows "(fst (visionMeasure E s) = None \<longrightarrow>
            visionInit E s = (snd (visionMeasure E s))\<lparr>visionStats := stats_reset (visionStats s)\<rparr>
          \<and> stats_getCount (visionStats (visionInit E s)) = 0
          \<and> sensorTimeout (visionInit E s) = sensorTimeout s
          \<and> sensorFault (visionInit E s) = sensorFault s
          \<and> mavlink_log (visionInit E s) = mavlink_log s)
       \<and> (fst (visionMeasure E s) \<noteq> None \<longrightarrow>
            stats_getCount (visionStats (visionInit E s)) = stats_getCount (visionStats s) + 1)
       \<and> (fst (visionMeasure E s) \<noteq> None 
            \<and> unat REQ_VISION_INIT_COUNT < stats_getCount (visionStats (visionInit E s)) \<longrightarrow>
            sensorTimeout (visionInit E s) = sensorTimeout s AND NOT (SENSOR_VISION E)
          \<and> sensorFault (visionInit E s) = sensorFault s AND NOT (SENSOR_VISION E)
          \<and> take (Suc (length (mavlink_log s))) (mavlink_log (visionInit E s)) =
              mavlink_log s @ [Info_vision_init (getMean E (visionStats (visionInit E s)))
                                                (getStdDev E (visionStats (visionInit E s)))])
       \<and> (fst (visionMeasure E s) \<noteq> None 
            \<and> \<not> unat REQ_VISION_INIT_COUNT < stats_getCount (visionStats (visionInit E s)) \<longrightarrow>
            visionInit E s = snd (visionMeasure E s)
          \<and> sensorTimeout (visionInit E s) = sensorTimeout s
          \<and> sensorFault (visionInit E s) = sensorFault s
          \<and> mavlink_log (visionInit E s) = mavlink_log s)
       \<and> (stats_getCount (visionStats s) = 0 \<longrightarrow>
            sensorTimeout (visionInit E s) = sensorTimeout s
          \<and> sensorFault (visionInit E s) = sensorFault s
          \<and> mavlink_log (visionInit E s) = mavlink_log s)
       \<and> unat REQ_VISION_INIT_COUNT = 1"
proof -
  let ?m = "visionMeasure E s"
  have rej: "visionInit E s = (snd ?m)\<lparr>visionStats := stats_reset (visionStats s)\<rparr>
          \<and> stats_getCount (visionStats (visionInit E s)) = 0
          \<and> sensorTimeout (visionInit E s) = sensorTimeout s
          \<and> sensorFault (visionInit E s) = sensorFault s
          \<and> mavlink_log (visionInit E s) = mavlink_log s" if "fst ?m = None"
    using that
    by (simp add: visionInit_rejected stats_reset_def stats_getCount_def visionMeasure_frame)
  have cnt: "stats_getCount (visionStats (snd ?m)) = stats_getCount (visionStats s) + 1"
    if "fst ?m = Some y" for y
    using that by (simp add: visionMeasure_stats stats_update_def stats_getCount_def)
  have wait: "visionInit E s = snd ?m
          \<and> sensorTimeout (visionInit E s) = sensorTimeout s
          \<and> sensorFault (visionInit E s) = sensorFault s
          \<and> mavlink_log (visionInit E s) = mavlink_log s"
    if "fst ?m = Some y" and "\<not> 1 < stats_getCount (visionStats (snd ?m))" for y
    using that by (simp add: visionInit_waiting [where y = y] REQ_VISION_INIT_COUNT_nat
        visionMeasure_frame)
  have stats: "visionStats (visionInit E s) = visionStats (snd ?m)" if "fst ?m = Some y" for y
  proof (cases "1 < stats_getCount (visionStats (snd ?m))")
    case True
    with that show ?thesis
      by (simp add: visionInit_done(4) [where y = y] REQ_VISION_INIT_COUNT_nat)
  next
    case False
    with that show ?thesis
      by (simp add: visionInit_waiting [where y = y] REQ_VISION_INIT_COUNT_nat)
  qed
  have compl: "sensorTimeout (visionInit E s) = sensorTimeout s AND NOT (SENSOR_VISION E)
          \<and> sensorFault (visionInit E s) = sensorFault s AND NOT (SENSOR_VISION E)
          \<and> take (Suc (length (mavlink_log s))) (mavlink_log (visionInit E s)) =
              mavlink_log s @ [Info_vision_init (getMean E (visionStats (visionInit E s)))
                                                (getStdDev E (visionStats (visionInit E s)))]"
    if "fst ?m = Some y" and "1 < stats_getCount (visionStats (snd ?m))" for y
    using that visionInit_done(1,2,3) [of E s y]
    by (simp add: stats [OF that(1)] REQ_VISION_INIT_COUNT_nat)
  have first: "sensorTimeout (visionInit E s) = sensorTimeout s
          \<and> sensorFault (visionInit E s) = sensorFault s
          \<and> mavlink_log (visionInit E s) = mavlink_log s"
    if z: "stats_getCount (visionStats s) = 0"
  proof (cases "fst ?m")
    case None
    from rej [OF None] show ?thesis by blast
  next
    case (Some y)
    with z have "\<not> 1 < stats_getCount (visionStats (snd ?m))"
      by (simp add: cnt)
    from wait [OF Some this] show ?thesis by blast
  qed
  show ?thesis
    unfolding REQ_VISION_INIT_COUNT_nat
  proof (intro conjI impI)
    assume "fst ?m \<noteq> None \<and> 1 < stats_getCount (visionStats (visionInit E s))"
    then obtain y where y: "fst ?m = Some y" and c: "1 < stats_getCount (visionStats (snd ?m))"
      by (auto simp add: stats)
    from compl [OF y c]
    show "sensorTimeout (visionInit E s) = sensorTimeout s AND NOT (SENSOR_VISION E)"
      and "sensorFault (visionInit E s) = sensorFault s AND NOT (SENSOR_VISION E)"
      and "take (Suc (length (mavlink_log s))) (mavlink_log (visionInit E s)) =
              mavlink_log s @ [Info_vision_init (getMean E (visionStats (visionInit E s)))
                                                (getStdDev E (visionStats (visionInit E s)))]"
      by blast+
  next
    assume "fst ?m \<noteq> None \<and> \<not> 1 < stats_getCount (visionStats (visionInit E s))"
    then obtain y where y: "fst ?m = Some y" and c: "\<not> 1 < stats_getCount (visionStats (snd ?m))"
      by (auto simp add: stats)
    from wait [OF y c]
    show "visionInit E s = snd ?m" and "sensorTimeout (visionInit E s) = sensorTimeout s"
      and "sensorFault (visionInit E s) = sensorFault s"
      and "mavlink_log (visionInit E s) = mavlink_log s"
      by blast+
  next
    assume "fst ?m \<noteq> None"
    then obtain y where y: "fst ?m = Some y"
      by auto
    show "stats_getCount (visionStats (visionInit E s)) = stats_getCount (visionStats s) + 1"
      by (simp add: stats [OF y] cnt [OF y])
  next
    assume n: "fst ?m = None"
    from rej [OF n]
    show "visionInit E s = (snd ?m)\<lparr>visionStats := stats_reset (visionStats s)\<rparr>"
      and "stats_getCount (visionStats (visionInit E s)) = 0"
      and "sensorTimeout (visionInit E s) = sensorTimeout s"
      and "sensorFault (visionInit E s) = sensorFault s"
      and "mavlink_log (visionInit E s) = mavlink_log s"
      by blast+
  next
    assume z: "stats_getCount (visionStats s) = 0"
    from first [OF z]
    show "sensorTimeout (visionInit E s) = sensorTimeout s"
      and "sensorFault (visionInit E s) = sensorFault s"
      and "mavlink_log (visionInit E s) = mavlink_log s"
      by blast+
  next
    show "(1 :: nat) = 1"
      by simp
  qed
qed

theorem visionInit_needs_two_samples_witness:
  "stats_getCount (visionStats x_uninit) = 0
   \<and> visionInit x_env x_uninit = x_init1
   \<and> sensorTimeout x_init1 = 32
   \<and> stats_getCount (visionStats x_init1) = 1
   \<and> stats_getCount (visionStats (visionInit x_env x_init1)) = 2
   \<and> sensorTimeout (visionInit x_env x_init1) = 0
   \<and> take 1 (mavlink_log (visionInit x_env x_init1)) =
       [Info_vision_init [[Fin 1], [Fin 2], [Fin 3]] [[Fin 0], [Fin 0], [Fin 0]]]
   \<and> fst (visionMeasure x_env (x_init1\<lparr>sub_visual_odom := x_odom_wide\<rparr>)) = None
   \<and> stats_getCount (visionStats (visionInit x_env (x_init1\<lparr>sub_visual_odom := x_odom_wide\<rparr>))) = 0"
proof -
  have c0: "stats_getCount (visionStats x_uninit) = 0"
    and c1: "stats_getCount (visionStats x_init1) = 1"
    and t1: "sensorTimeout x_init1 = 32" and l1: "mavlink_log x_init1 = []"
    by (simp_all add: x_uninit_def x_init1_def x_state_def stats_getCount_def)
  have m0: "fst (visionMeasure x_env x_uninit) \<noteq> None" "snd (visionMeasure x_env x_uninit) = x_init1"
    by (simp_all add: x_uninit_measure)
  have m1: "fst (visionMeasure x_env x_init1) \<noteq> None"
    by (simp add: x_init1_measure)
  note a = visionInit_needs_two_samples [of x_env x_uninit]
  from a m0(1) c0 have "stats_getCount (visionStats (visionInit x_env x_uninit)) = 1"
    by simp
  with a m0 have first: "visionInit x_env x_uninit = x_init1"
    by simp
  note b = visionInit_needs_two_samples [of x_env x_init1]
  from b m1 c1 have c2: "stats_getCount (visionStats (visionInit x_env x_init1)) = 2"
    by simp
  have st: "visionStats (visionInit x_env x_init1) =
              [[[Fin 1], [Fin 2], [Fin 3]], [[Fin 1], [Fin 2], [Fin 3]]]"
    using m1 c2
    by (simp add: visionInit_done(4) [where y = "[[Fin 1], [Fin 2], [Fin 3]]"] x_init1_measure
          REQ_VISION_INIT_COUNT_nat stats_getCount_def)
  from b m1 c2 have "sensorTimeout (visionInit x_env x_init1) = sensorTimeout x_init1 AND NOT (SENSOR_VISION x_env)
     \<and> take (Suc (length (mavlink_log x_init1))) (mavlink_log (visionInit x_env x_init1)) =
              mavlink_log x_init1 @ [Info_vision_init (getMean x_env (visionStats (visionInit x_env x_init1)))
                                                (getStdDev x_env (visionStats (visionInit x_env x_init1)))]"
    by simp
  then have second: "sensorTimeout (visionInit x_env x_init1) = 0
     \<and> take 1 (mavlink_log (visionInit x_env x_init1)) =
       [Info_vision_init [[Fin 1], [Fin 2], [Fin 3]] [[Fin 0], [Fin 0], [Fin 0]]]"
    unfolding st t1 l1 by (simp add: x_two_samples_stats) (simp add: x_env_def)
  note c = visionInit_needs_two_samples [of x_env "x_init1\<lparr>sub_visual_odom := x_odom_wide\<rparr>"]
  from c x_init1_wide_measure
  have third: "stats_getCount (visionStats (visionInit x_env (x_init1\<lparr>sub_visual_odom := x_odom_wide\<rparr>))) = 0"
    by blast
  from c0 first t1 c1 c2 second x_init1_wide_measure third show ?thesis
    by blast
qed

text \<open>
  C5. When the x variance of the sample is finite, which is the test the code makes and
  holds in particular when all three variances are finite, \<open>visionMeasure\<close> stores
  \<^verbatim>\<open>sqrtf(fmaxf(x variance, y variance))\<close> as horizontal and \<^verbatim>\<open>sqrtf(z variance)\<close> as
  vertical uncertainty, and each axis is valid exactly when its uncertainty is \<^verbatim>\<open><=\<close>
  the ceiling \<^verbatim>\<open>EP_MAX_STD_DEV\<close>, the float \<^verbatim>\<open>100.0f\<close>. Where the ceiling compares \<^verbatim>\<open><=\<close>
  to itself, as every float but NaN does, an uncertainty equal to the ceiling is valid.
\<close>

theorem visionMeasure_finite_covariance:
  fixes E :: "('f, 'd, 'mr, 'w::len word) env" and s :: "('f, 'd, 'mr, 'w word) lpe"
  assumes "PX4_ISFINITE E (var_x s)"
  shows "vision_eph (snd (visionMeasure E s)) = sqrtf E (fmaxf E (var_x s) (var_y s))
       \<and> vision_epv (snd (visionMeasure E s)) = sqrtf E (var_z s)
       \<and> vision_xy_valid (snd (visionMeasure E s)) =
           f_le E (vision_eph (snd (visionMeasure E s))) (EP_MAX_STD_DEV E)
       \<and> vision_z_valid (snd (visionMeasure E s)) =
           f_le E (vision_epv (snd (visionMeasure E s))) (EP_MAX_STD_DEV E)
       \<and> EP_MAX_STD_DEV E = f_lit E 100 0
       \<and> (f_le E (EP_MAX_STD_DEV E) (EP_MAX_STD_DEV E) \<longrightarrow>
            (vision_eph (snd (visionMeasure E s)) = EP_MAX_STD_DEV E
               \<longrightarrow> vision_xy_valid (snd (visionMeasure E s)))
          \<and> (vision_epv (snd (visionMeasure E s)) = EP_MAX_STD_DEV E
               \<longrightarrow> vision_z_valid (snd (visionMeasure E s))))"
proof -
  note f = visionMeasure_finite [OF assms [unfolded var_x_def]]
  show ?thesis
    by (simp add: f var_defs EP_MAX_STD_DEV_def)
qed

theorem visionMeasure_finite_covariance_witness:
  "PX4_ISFINITE x_env (var_x (x_state\<lparr>sub_visual_odom := x_odom_ceiling\<rparr>))
   \<and> f_le x_env (EP_MAX_STD_DEV x_env) (EP_MAX_STD_DEV x_env)
   \<and> vision_eph (snd (visionMeasure x_env (x_state\<lparr>sub_visual_odom := x_odom_ceiling\<rparr>))) =
       EP_MAX_STD_DEV x_env
   \<and> vision_epv (snd (visionMeasure x_env (x_state\<lparr>sub_visual_odom := x_odom_ceiling\<rparr>))) =
       EP_MAX_STD_DEV x_env
   \<and> vision_xy_valid (snd (visionMeasure x_env (x_state\<lparr>sub_visual_odom := x_odom_ceiling\<rparr>)))
   \<and> vision_z_valid (snd (visionMeasure x_env (x_state\<lparr>sub_visual_odom := x_odom_ceiling\<rparr>)))"
proof -
  let ?s = "x_state\<lparr>sub_visual_odom := x_odom_ceiling\<rparr>"
  have fin: "PX4_ISFINITE x_env (var_x ?s)"
    by (simp add: var_x_def x_odom_ceiling_def x_defs)
  have c: "EP_MAX_STD_DEV x_env = Fin 100"
    by (simp add: x_defs)
  have refl: "f_le x_env (EP_MAX_STD_DEV x_env) (EP_MAX_STD_DEV x_env)"
    unfolding c by (simp add: x_env_def)
  have e: "vision_eph (snd (visionMeasure x_env ?s)) = EP_MAX_STD_DEV x_env
         \<and> vision_epv (snd (visionMeasure x_env ?s)) = EP_MAX_STD_DEV x_env"
    unfolding c x_ceiling_measure by simp
  from visionMeasure_finite_covariance [OF fin] refl e fin show ?thesis
    by blast
qed

text \<open>
  C6, as amended. The code decides on the x variance alone. When the x variance of the
  sample is not finite, which holds in particular when none of the variances is finite,
  \<open>visionMeasure\<close> declares both axes valid: the sample is rejected only if its x
  position is not finite, and is otherwise returned as the measurement.
\<close>

theorem visionMeasure_no_covariance_valid:
  fixes E :: "('f, 'd, 'mr, 'w::len word) env" and s :: "('f, 'd, 'mr, 'w word) lpe"
  assumes "\<not> PX4_ISFINITE E (var_x s)"
  shows "vision_xy_valid (snd (visionMeasure E s))
       \<and> vision_z_valid (snd (visionMeasure E s))
       \<and> (fst (visionMeasure E s) = None) = (\<not> PX4_ISFINITE E (odom_x (sub_visual_odom s)))
       \<and> (PX4_ISFINITE E (odom_x (sub_visual_odom s)) \<longrightarrow>
            fst (visionMeasure E s) =
              Some [[odom_x (sub_visual_odom s)], [odom_y (sub_visual_odom s)],
                    [odom_z (sub_visual_odom s)]])"
proof -
  note n = visionMeasure_not_finite [OF assms [unfolded var_x_def]]
  show ?thesis
    using n(3) n(4) n(5) by (simp add: visionMeasure_result)
qed

theorem visionMeasure_no_covariance_valid_witness:
  "\<not> PX4_ISFINITE x_env
        (var_x (x_state\<lparr>sub_visual_odom := x_odom_nocov, vision_eph := Fin 7, vision_epv := Fin 9\<rparr>))
   \<and> vision_xy_valid (snd (visionMeasure x_env
        (x_state\<lparr>sub_visual_odom := x_odom_nocov, vision_eph := Fin 7, vision_epv := Fin 9\<rparr>)))
   \<and> vision_z_valid (snd (visionMeasure x_env
        (x_state\<lparr>sub_visual_odom := x_odom_nocov, vision_eph := Fin 7, vision_epv := Fin 9\<rparr>)))
   \<and> fst (visionMeasure x_env
        (x_state\<lparr>sub_visual_odom := x_odom_nocov, vision_eph := Fin 7, vision_epv := Fin 9\<rparr>)) =
       Some [[Fin 1], [Fin 2], [Fin 3]]"
proof -
  let ?s = "x_state\<lparr>sub_visual_odom := x_odom_nocov, vision_eph := Fin 7, vision_epv := Fin 9\<rparr>"
  have r: "fst (visionMeasure x_env ?s) = Some [[Fin 1], [Fin 2], [Fin 3]]"
    by (simp add: x_nocov_measure)
  from visionMeasure_no_covariance_valid [OF x_nocov_var] x_nocov_var r show ?thesis
    by blast
qed

text \<open>
  C6, as stated, speaks of every sample whose covariance entries are not finite. It fails
  on the sample with the variances 1, 1 and NaN at the position (1, 2, 3): its covariance
  entries are not finite, but the x variance is, so the code computes the uncertainties;
  the vertical one is \<^verbatim>\<open>sqrtf(NaN)\<close>, which is not \<^verbatim>\<open><=\<close> the ceiling, the vertical axis
  is declared invalid and the sample is rejected.
\<close>

theorem visionMeasure_no_covariance_valid_counterexample:
  "\<not> covariance_finite x_env (x_state\<lparr>sub_visual_odom := x_odom_mixed\<rparr>)
   \<and> PX4_ISFINITE x_env (var_x (x_state\<lparr>sub_visual_odom := x_odom_mixed\<rparr>))
   \<and> \<not> PX4_ISFINITE x_env (var_z (x_state\<lparr>sub_visual_odom := x_odom_mixed\<rparr>))
   \<and> PX4_ISFINITE x_env (odom_x (sub_visual_odom (x_state\<lparr>sub_visual_odom := x_odom_mixed\<rparr>)))
   \<and> \<not> (vision_xy_valid (snd (visionMeasure x_env (x_state\<lparr>sub_visual_odom := x_odom_mixed\<rparr>)))
         \<and> vision_z_valid (snd (visionMeasure x_env (x_state\<lparr>sub_visual_odom := x_odom_mixed\<rparr>))))
   \<and> fst (visionMeasure x_env (x_state\<lparr>sub_visual_odom := x_odom_mixed\<rparr>)) = None"
  by (simp add: visionMeasure_def Let_def covariance_finite_def var_defs x_odom_mixed_def x_defs)

text \<open>
  C7. When the clock is more than \<^verbatim>\<open>VISION_TIMEOUT\<close> (500000 microseconds) past the
  last-seen timestamp and the vision timeout bit is clear, \<open>visionCheckTimeout\<close> sets the
  bit, resets the statistics, whose count is then 0, and sends exactly one critical
  notification. When the bit is already set the call changes nothing; hence a second call
  right after the first changes nothing, and no bit of the timeout mask is ever cleared.
  The code takes the difference of the two timestamps in unsigned 64-bit arithmetic; the
  last conjunct shows that a difference that exceeds the timeout as a difference of
  integers also does so in the code's arithmetic.
\<close>

theorem visionCheckTimeout_fires_once:
  fixes E :: "('f, 'd, 'mr, 'w::len word) env" and s :: "('f, 'd, 'mr, 'w word) lpe"
  shows "(timeStamp s - time_last_vision_p s > ucast VISION_TIMEOUT
            \<and> sensorTimeout s AND SENSOR_VISION E = 0 \<longrightarrow>
            visionCheckTimeout E s =
              s\<lparr>sensorTimeout := sensorTimeout s OR SENSOR_VISION E,
                visionStats := stats_reset (visionStats s),
                mavlink_log := mavlink_log s @ [Critical_vision_timeout]\<rparr>
            \<and> stats_getCount (visionStats (visionCheckTimeout E s)) = 0)
       \<and> (sensorTimeout s AND SENSOR_VISION E \<noteq> 0 \<longrightarrow> visionCheckTimeout E s = s)
       \<and> (SENSOR_VISION E \<noteq> 0 \<longrightarrow>
            visionCheckTimeout E (visionCheckTimeout E s) = visionCheckTimeout E s)
       \<and> sensorTimeout (visionCheckTimeout E s) AND sensorTimeout s = sensorTimeout s
       \<and> (500000 < uint (timeStamp s) - uint (time_last_vision_p s) \<longrightarrow>
            timeStamp s - time_last_vision_p s > ucast VISION_TIMEOUT)"
proof (intro conjI impI)
  assume "500000 < uint (timeStamp s) - uint (time_last_vision_p s)"
  then show "timeStamp s - time_last_vision_p s > ucast VISION_TIMEOUT"
    by (rule timeout_no_wrap)
next
  assume a: "timeStamp s - time_last_vision_p s > ucast VISION_TIMEOUT
             \<and> sensorTimeout s AND SENSOR_VISION E = 0"
  then show "visionCheckTimeout E s =
              s\<lparr>sensorTimeout := sensorTimeout s OR SENSOR_VISION E,
                visionStats := stats_reset (visionStats s),
                mavlink_log := mavlink_log s @ [Critical_vision_timeout]\<rparr>"
    by (simp add: visionCheckTimeout_fire stats_reset_def)
  from a show "stats_getCount (visionStats (visionCheckTimeout E s)) = 0"
    by (simp add: visionCheckTimeout_fire stats_getCount_def)
next
  assume "sensorTimeout s AND SENSOR_VISION E \<noteq> 0"
  then show "visionCheckTimeout E s = s" by (simp add: visionCheckTimeout_idle)
next
  assume nz: "SENSOR_VISION E \<noteq> 0"
  show "visionCheckTimeout E (visionCheckTimeout E s) = visionCheckTimeout E s"
  proof (cases "timeStamp s - time_last_vision_p s > ucast VISION_TIMEOUT
                \<and> sensorTimeout s AND SENSOR_VISION E = 0")
    case True
    then have "sensorTimeout (visionCheckTimeout E s) AND SENSOR_VISION E \<noteq> 0"
      using nz by (simp add: visionCheckTimeout_fire bit_or_and_self)
    then show ?thesis by (rule visionCheckTimeout_idle [OF disjI2])
  next
    case False
    then have "visionCheckTimeout E s = s" by (intro visionCheckTimeout_idle) blast
    then show ?thesis by simp
  qed
next
  show "sensorTimeout (visionCheckTimeout E s) AND sensorTimeout s = sensorTimeout s"
  proof (cases "timeStamp s - time_last_vision_p s > ucast VISION_TIMEOUT
                \<and> sensorTimeout s AND SENSOR_VISION E = 0")
    case True
    then show ?thesis by (simp add: visionCheckTimeout_fire bit_or_and_old)
  next
    case False
    then have "visionCheckTimeout E s = s" by (intro visionCheckTimeout_idle) blast
    then show ?thesis by simp
  qed
qed

theorem visionCheckTimeout_fires_once_witness:
  "500000 < uint (timeStamp x_state) - uint (time_last_vision_p x_state)
   \<and> timeStamp x_state - time_last_vision_p x_state > ucast VISION_TIMEOUT
   \<and> sensorTimeout x_state AND SENSOR_VISION x_env = 0
   \<and> visionCheckTimeout x_env x_state =
       x_state\<lparr>sensorTimeout := 32, visionStats := [], mavlink_log := [Critical_vision_timeout]\<rparr>
   \<and> visionCheckTimeout x_env (visionCheckTimeout x_env x_state) = visionCheckTimeout x_env x_state
   \<and> sensorTimeout x_uninit AND SENSOR_VISION x_env \<noteq> 0
   \<and> visionCheckTimeout x_env x_uninit = x_uninit"
proof -
  note t = visionCheckTimeout_fires_once [of x_state x_env]
  have u: "500000 < uint (timeStamp x_state) - uint (time_last_vision_p x_state)"
    by (simp add: x_state_def)
  with t have late: "timeStamp x_state - time_last_vision_p x_state > ucast VISION_TIMEOUT"
    by blast
  have clear: "sensorTimeout x_state AND SENSOR_VISION x_env = 0"
    by (simp add: x_state_def x_env_def)
  have b: "SENSOR_VISION x_env \<noteq> 0"
    by (simp add: x_env_def)
  have c: "x_state\<lparr>sensorTimeout := sensorTimeout x_state OR SENSOR_VISION x_env,
                   visionStats := stats_reset (visionStats x_state),
                   mavlink_log := mavlink_log x_state @ [Critical_vision_timeout]\<rparr>
           = x_state\<lparr>sensorTimeout := 32, visionStats := [],
                     mavlink_log := [Critical_vision_timeout]\<rparr>"
    by (simp add: x_state_def x_env_def stats_reset_def)
  from t late clear c have d: "visionCheckTimeout x_env x_state =
       x_state\<lparr>sensorTimeout := 32, visionStats := [], mavlink_log := [Critical_vision_timeout]\<rparr>"
    by simp
  from t b have e: "visionCheckTimeout x_env (visionCheckTimeout x_env x_state) =
       visionCheckTimeout x_env x_state"
    by blast
  have f: "sensorTimeout x_uninit AND SENSOR_VISION x_env \<noteq> 0"
    by (simp add: x_uninit_def x_state_def x_env_def)
  with visionCheckTimeout_fires_once [of x_uninit x_env]
  have g: "visionCheckTimeout x_env x_uninit = x_uninit"
    by blast
  from u late clear d e f g show ?thesis by blast
qed

text \<open>
  C8. The noise matrix \<open>R\<close> that \<open>visionCorrect\<close> builds is diagonal: its x and y entries
  are the square of the larger of the cached horizontal uncertainty and the configured
  horizontal floor, its z entry the square of the larger of the cached vertical
  uncertainty and the vertical floor, and every other entry is 0. On a cycle that is not
  aborted it is the matrix of the state \<open>visionMeasure\<close> left that enters the residual
  covariance whose diagonal is published.
\<close>

theorem vision_R_diagonal:
  fixes E :: "('f, 'd, 'mr, 'w::len word) env" and s :: "('f, 'd, 'mr, 'w word) lpe"
  shows "vision_R E s =
          [[f_mul E (larger_of E (vision_eph s) (vision_xy_stddev s))
                    (larger_of E (vision_eph s) (vision_xy_stddev s)), f_lit E 0 0, f_lit E 0 0],
           [f_lit E 0 0, f_mul E (larger_of E (vision_eph s) (vision_xy_stddev s))
                    (larger_of E (vision_eph s) (vision_xy_stddev s)), f_lit E 0 0],
           [f_lit E 0 0, f_lit E 0 0, f_mul E (larger_of E (vision_epv s) (vision_z_stddev s))
                    (larger_of E (vision_epv s) (vision_z_stddev s))]]
       \<and> (\<forall>y s1 rc i_hist.
            visionMeasure E s = (Some y, s1) \<and>
            getDelayPeriods E s1 (vision_delay_arg E s1) = (rc, i_hist) \<and> \<not> rc < 0 \<longrightarrow>
            vel_pos_innov_var (pub_innov (visionCorrect E s)) =
              vel_pos_innov_var
                (publish_innov E (vision_r E s1 y i_hist)
                   (m_add E (m_mul E (m_mul E (vision_C E) (est_P s)) (m_transpose E (vision_C E)))
                      (vision_R E s1))
                   (pub_innov s)))"
proof (intro conjI allI impI)
  show "vision_R E s =
          [[f_mul E (larger_of E (vision_eph s) (vision_xy_stddev s))
                    (larger_of E (vision_eph s) (vision_xy_stddev s)), f_lit E 0 0, f_lit E 0 0],
           [f_lit E 0 0, f_mul E (larger_of E (vision_eph s) (vision_xy_stddev s))
                    (larger_of E (vision_eph s) (vision_xy_stddev s)), f_lit E 0 0],
           [f_lit E 0 0, f_lit E 0 0, f_mul E (larger_of E (vision_epv s) (vision_z_stddev s))
                    (larger_of E (vision_epv s) (vision_z_stddev s))]]"
    by (rule vision_R_diag)
next
  fix y s1 rc i_hist
  assume a: "visionMeasure E s = (Some y, s1) \<and>
             getDelayPeriods E s1 (vision_delay_arg E s1) = (rc, i_hist) \<and> \<not> rc < 0"
  then have s1: "s1 = snd (visionMeasure E s)"
    by simp
  from a have m: "visionMeasure E s = (Some y, s1)"
    and d: "getDelayPeriods E s1 (vision_delay_arg E s1) = (rc, i_hist)" and n: "\<not> rc < 0"
    by simp_all
  have "visionCorrect E s =
           kalmanCorrect E (vision_r E s1 y i_hist) (vision_S_I E s1)
             (faultDetect E (vision_beta E (vision_r E s1 y i_hist) (vision_S_I E s1))
                (s1\<lparr>pub_innov := publish_innov E (vision_r E s1 y i_hist) (vision_S E s1)
                                    (pub_innov s1)\<rparr>))"
    by (rule visionCorrect_cycle [OF m d n])
  then show "vel_pos_innov_var (pub_innov (visionCorrect E s)) =
              vel_pos_innov_var
                (publish_innov E (vision_r E s1 y i_hist)
                   (m_add E (m_mul E (m_mul E (vision_C E) (est_P s)) (m_transpose E (vision_C E)))
                      (vision_R E s1))
                   (pub_innov s))"
    by (simp add: kalmanCorrect_frame faultDetect_frame vision_S_def)
       (simp add: s1 visionMeasure_frame)
qed

theorem vision_R_diagonal_witness:
  "vision_R x_env (x_measured 1 0 (1 / 10)) =
     [[Fin 1, Fin 0, Fin 0], [Fin 0, Fin 1, Fin 0], [Fin 0, Fin 0, Fin 1]]
   \<and> vision_R x_env x_state =
     [[Fin (1 / 100), Fin 0, Fin 0], [Fin 0, Fin (1 / 100), Fin 0], [Fin 0, Fin 0, Fin (1 / 4)]]
   \<and> visionMeasure x_env (x_cycle 1 0 (1 / 10)) =
       (Some [[Fin 1], [Fin 2], [Fin 3]], x_measured 1 0 (1 / 10))
   \<and> getDelayPeriods x_env (x_measured 1 0 (1 / 10))
        (vision_delay_arg x_env (x_measured 1 0 (1 / 10))) = (0, 1)
   \<and> vel_pos_innov_var (pub_innov (visionCorrect x_env (x_cycle 1 0 (1 / 10)))) =
       [Fin 2, Fin 2, Fin 2, Fin 1, Fin 1, Fin 1]"
proof -
  let ?s = "x_cycle 1 0 (1 / 10)" and ?s1 = "x_measured 1 0 (1 / 10)"
  have a: "larger_of x_env (vision_eph ?s1) (vision_xy_stddev ?s1) = Fin 1
         \<and> larger_of x_env (vision_epv ?s1) (vision_z_stddev ?s1) = Fin 1
         \<and> larger_of x_env (vision_eph x_state) (vision_xy_stddev x_state) = Fin (1 / 10)
         \<and> larger_of x_env (vision_epv x_state) (vision_z_stddev x_state) = Fin (1 / 2)"
    by (simp add: larger_of_def x_defs)
  have b: "f_mul x_env = x_mul \<and> f_lit x_env 0 0 = Fin 0 \<and> f_lit x_env 1 0 = Fin 1"
    by (simp add: x_env_def x_lit_def)
  have m: "visionMeasure x_env ?s = (Some [[Fin 1], [Fin 2], [Fin 3]], ?s1)"
    by (rule x_cycle_measure)
  have d: "getDelayPeriods x_env ?s1 (vision_delay_arg x_env ?s1) = (0, 1)"
    by (simp add: x_cycle_delay)
  have S: "m_add x_env (m_mul x_env (m_mul x_env (vision_C x_env) (est_P ?s))
                          (m_transpose x_env (vision_C x_env))) (vision_R x_env ?s1) =
           [[Fin 2, Fin 0, Fin 0], [Fin 0, Fin 2, Fin 0], [Fin 0, Fin 0, Fin 2]]"
    using x_cycle_S [of 1 0 "1 / 10"] by (simp add: vision_S_def x_measured_est_P)
  have len: "length (vel_pos_innov (pub_innov ?s)) = 6
           \<and> length (vel_pos_innov_var (pub_innov ?s)) = 6"
    by (simp add: x_cycle_def x_state_def)
  note t = vision_R_diagonal [of x_env ?s1] vision_R_diagonal [of x_env x_state]
    vision_R_diagonal [of x_env ?s]
  from t(1) t(2) have R: "vision_R x_env ?s1 =
        [[Fin 1, Fin 0, Fin 0], [Fin 0, Fin 1, Fin 0], [Fin 0, Fin 0, Fin 1]]
      \<and> vision_R x_env x_state =
        [[Fin (1 / 100), Fin 0, Fin 0], [Fin 0, Fin (1 / 100), Fin 0], [Fin 0, Fin 0, Fin (1 / 4)]]"
    by (simp add: a b)
  from t(3) m d have "vel_pos_innov_var (pub_innov (visionCorrect x_env ?s)) =
              vel_pos_innov_var
                (publish_innov x_env (vision_r x_env ?s1 [[Fin 1], [Fin 2], [Fin 3]] 1)
                   (m_add x_env (m_mul x_env (m_mul x_env (vision_C x_env) (est_P ?s))
                          (m_transpose x_env (vision_C x_env))) (vision_R x_env ?s1))
                   (pub_innov ?s))"
    by simp
  then have "vel_pos_innov_var (pub_innov (visionCorrect x_env ?s)) =
       [Fin 2, Fin 2, Fin 2, Fin 1, Fin 1, Fin 1]"
    unfolding S by (simp add: publish_innov_slots len mat_get_def b)
  with R m d show ?thesis
    by blast
qed

text \<open>
  C9. Every call of \<open>visionMeasure\<close> stores the sample's timestamp as the last-seen
  timestamp. When it succeeds, the measurement is the sample's position and the
  statistics are updated with it; when it fails they are untouched. So the statistics
  change exactly when the call succeeds.
\<close>

theorem visionMeasure_timestamp_and_stats:
  fixes E :: "('f, 'd, 'mr, 'w::len word) env" and s :: "('f, 'd, 'mr, 'w word) lpe"
  shows "time_last_vision_p (snd (visionMeasure E s)) = timestamp (sub_visual_odom s)
       \<and> (\<forall>y. fst (visionMeasure E s) = Some y \<longrightarrow>
              y = [[odom_x (sub_visual_odom s)], [odom_y (sub_visual_odom s)],
                   [odom_z (sub_visual_odom s)]]
            \<and> visionStats (snd (visionMeasure E s)) = stats_update (visionStats s) y)
       \<and> (fst (visionMeasure E s) = None \<longrightarrow>
              visionStats (snd (visionMeasure E s)) = visionStats s)
       \<and> (visionStats (snd (visionMeasure E s)) \<noteq> visionStats s) =
           (fst (visionMeasure E s) \<noteq> None)"
proof (intro conjI allI impI)
  show "time_last_vision_p (snd (visionMeasure E s)) = timestamp (sub_visual_odom s)"
    by (rule visionMeasure_time)
next
  fix y assume y: "fst (visionMeasure E s) = Some y"
  then show "y = [[odom_x (sub_visual_odom s)], [odom_y (sub_visual_odom s)],
                  [odom_z (sub_visual_odom s)]]"
    by (simp add: visionMeasure_result split: if_splits)
  from y show "visionStats (snd (visionMeasure E s)) = stats_update (visionStats s) y"
    by (simp add: visionMeasure_stats)
next
  assume "fst (visionMeasure E s) = None"
  then show "visionStats (snd (visionMeasure E s)) = visionStats s"
    by (simp add: visionMeasure_stats)
next
  show "(visionStats (snd (visionMeasure E s)) \<noteq> visionStats s) =
          (fst (visionMeasure E s) \<noteq> None)"
    by (cases "fst (visionMeasure E s)") (simp_all add: visionMeasure_stats stats_update_def)
qed

theorem visionMeasure_timestamp_and_stats_witness:
  "fst (visionMeasure x_env (x_cycle 1 0 (1 / 10))) = Some [[Fin 1], [Fin 2], [Fin 3]]
   \<and> time_last_vision_p (snd (visionMeasure x_env (x_cycle 1 0 (1 / 10)))) =
       timestamp (sub_visual_odom (x_cycle 1 0 (1 / 10)))
   \<and> visionStats (snd (visionMeasure x_env (x_cycle 1 0 (1 / 10)))) =
       stats_update (visionStats (x_cycle 1 0 (1 / 10))) [[Fin 1], [Fin 2], [Fin 3]]
   \<and> fst (visionMeasure x_env (x_state\<lparr>sub_visual_odom := x_odom_wide\<rparr>)) = None
   \<and> time_last_vision_p (snd (visionMeasure x_env (x_state\<lparr>sub_visual_odom := x_odom_wide\<rparr>))) =
       timestamp (sub_visual_odom (x_state\<lparr>sub_visual_odom := x_odom_wide\<rparr>))
   \<and> visionStats (snd (visionMeasure x_env (x_state\<lparr>sub_visual_odom := x_odom_wide\<rparr>))) =
       visionStats (x_state\<lparr>sub_visual_odom := x_odom_wide\<rparr>)"
proof -
  have a: "fst (visionMeasure x_env (x_cycle 1 0 (1 / 10))) = Some [[Fin 1], [Fin 2], [Fin 3]]"
    by (simp add: x_cycle_measure)
  have b: "fst (visionMeasure x_env (x_state\<lparr>sub_visual_odom := x_odom_wide\<rparr>)) = None"
    by (simp add: x_wide_measure)
  from visionMeasure_timestamp_and_stats [of x_env "x_cycle 1 0 (1 / 10)"]
       visionMeasure_timestamp_and_stats [of x_env "x_state\<lparr>sub_visual_odom := x_odom_wide\<rparr>"]
       a b
  show ?thesis by blast
qed



end
